theory Spec2Isabelle
  imports Main
begin

chapter \<open>The block editor store and its history slice\<close>

text \<open>
  A shallow embedding of the editor of the notion-editor-clone repository: the block and
  document types, the block factories, the five actions of the Zustand store
  (\<open>updateBlockContent\<close>, \<open>createBlock\<close>, \<open>deleteBlock\<close>, \<open>mergeBlockWithPrevious\<close>,
  \<open>splitBlock\<close>) in both copies the repository holds, and the history slice
  (\<open>pushHistory\<close>, \<open>commitBatch\<close>, \<open>undo\<close>, \<open>redo\<close>) of the project specification.

  Field names follow the source except where a name is taken: a block's \<open>id\<close> and
  \<open>type\<close> are \<open>bid\<close> and \<open>btype\<close>, a run's \<open>text\<close> is \<open>rtText\<close>, a mark's
  \<open>type\<close> is \<open>markType\<close>, and the document's \<open>id\<close>, \<open>createdAt\<close> and
  \<open>updatedAt\<close> are \<open>docId\<close>, \<open>docCreatedAt\<close> and \<open>docUpdatedAt\<close>.
\<close>

section \<open>JavaScript helpers used by the store\<close>

text \<open>
  Strings are sequences of code units and arrays are lists.  \<open>Array.prototype.slice\<close> and
  \<open>String.prototype.slice\<close> share one index rule: a negative index counts from the end and
  every index is clamped to \<open>[0, length]\<close>; an empty range gives the empty result.
  Offsets are integers (\<open>slice\<close> truncates any other number to one).
\<close>

definition relIndex :: "int \<Rightarrow> int \<Rightarrow> nat" where
  "relIndex len i = (if i < 0 then nat (max (len + i) 0) else nat (min i len))"

definition slice :: "'a list \<Rightarrow> int \<Rightarrow> int \<Rightarrow> 'a list" where
  "slice xs start fin =
     (let len = int (length xs); k = relIndex len start; e = relIndex len fin
      in take (e - k) (drop k xs))"

definition sliceFrom :: "'a list \<Rightarrow> int \<Rightarrow> 'a list" where
  "sliceFrom xs start = drop (relIndex (int (length xs)) start) xs"

text \<open>\<open>xs.indexOf(x)\<close>: the first position of \<open>x\<close>, or \<open>-1\<close>.\<close>

fun indexOf :: "'a list \<Rightarrow> 'a \<Rightarrow> int" where
  "indexOf [] x = -1"
| "indexOf (y # ys) x =
     (if y = x then 0 else (let i = indexOf ys x in if i = -1 then -1 else i + 1))"

text \<open>\<open>xs[i]\<close>: \<open>undefined\<close> (here \<open>None\<close>) outside the array.\<close>

definition lookupAt :: "'a list \<Rightarrow> int \<Rightarrow> 'a option" where
  "lookupAt xs i = (if 0 \<le> i \<and> i < int (length xs) then Some (xs ! nat i) else None)"

section \<open>Data model (types/richText.ts, types/block.ts, types/editor.ts)\<close>

type_synonym BlockId = string

datatype MarkType = Bold | Italic | Underline | Strikethrough | Code | Link

text \<open>\<open>Mark = { type; attrs?: { href?: string } }\<close>\<close>

record Mark =
  markType :: MarkType
  attrs :: "string option option"

text \<open>\<open>RichText = { text: string; marks: Mark[] }\<close>\<close>

record RichText =
  rtText :: string
  marks :: "Mark list"

text \<open>\<open>Block["type"]\<close>: the union \<open>"paragraph" | "heading1" | "heading2" | "heading3"\<close>.\<close>

datatype BlockType = Paragraph | Heading1 | Heading2 | Heading3

text \<open>\<open>Block = ParagraphBlock | HeadingBlock\<close>; both carry the same fields.\<close>

record Block =
  bid :: BlockId
  btype :: BlockType
  content :: "RichText list"
  children :: "BlockId list"
  createdAt :: int
  updatedAt :: int

record Document =
  docId :: string
  title :: string
  rootBlockIds :: "BlockId list"
  blocks :: "BlockId \<rightharpoonup> Block"
  docCreatedAt :: int
  docUpdatedAt :: int

datatype SelectionType = Caret | Range

record Selection =
  selType :: SelectionType
  anchorBlockId :: BlockId
  anchorOffset :: int
  focusBlockId :: BlockId
  focusOffset :: int

record UIState =
  focusedBlockId :: "BlockId option"

record EditorState =
  document :: Document
  selection :: "Selection option"
  ui :: UIState

section \<open>Block factories (utils/blockUtils.ts) and plain text (utils/richText.ts)\<close>

text \<open>
  \<open>createId()\<close> and \<open>Date.now()\<close> are the two ambient inputs of the program.  Every
  function that calls them takes the generated identifier \<open>newId\<close> and the clock
  reading \<open>now\<close> as arguments; one action reads one clock value.
\<close>

text \<open>\<open>text ? [{ text, marks: [] }] : []\<close>: a missing or empty string gives no run.\<close>

definition plainTextToRichText :: "string \<Rightarrow> RichText list" where
  "plainTextToRichText t = (if t = [] then [] else [\<lparr>rtText = t, marks = []\<rparr>])"

definition richTextToPlainText :: "RichText list \<Rightarrow> string" where
  "richTextToPlainText cont = concat (map rtText cont)"

definition createParagraphBlock :: "BlockId \<Rightarrow> int \<Rightarrow> string option \<Rightarrow> Block" where
  "createParagraphBlock newId now t =
     \<lparr>bid = newId, btype = Paragraph,
      content = (case t of None \<Rightarrow> [] | Some s \<Rightarrow> plainTextToRichText s),
      children = [], createdAt = now, updatedAt = now\<rparr>"

datatype HeadingLevel = L1 | L2 | L3

fun headingType :: "HeadingLevel \<Rightarrow> BlockType" where
  "headingType L1 = Heading1"
| "headingType L2 = Heading2"
| "headingType L3 = Heading3"

definition createHeadingBlock :: "BlockId \<Rightarrow> int \<Rightarrow> HeadingLevel \<Rightarrow> string option \<Rightarrow> Block" where
  "createHeadingBlock newId now level t =
     \<lparr>bid = newId, btype = headingType level,
      content = (case t of None \<Rightarrow> [] | Some s \<Rightarrow> plainTextToRichText s),
      children = [], createdAt = now, updatedAt = now\<rparr>"

section \<open>The editor store (store/editorStore.ts)\<close>

text \<open>\<open>type.startsWith("heading")\<close> on the four block types.\<close>

fun startsWithHeading :: "BlockType \<Rightarrow> bool" where
  "startsWithHeading Paragraph = False"
| "startsWithHeading Heading1 = True"
| "startsWithHeading Heading2 = True"
| "startsWithHeading Heading3 = True"

text \<open>\<open>block.type === "paragraph" || block.type.startsWith("heading")\<close>\<close>

definition hasContent :: "BlockType \<Rightarrow> bool" where
  "hasContent t = (t = Paragraph \<or> startsWithHeading t)"

text \<open>
  An action takes the store state and returns the value the JavaScript function returns
  together with the state that \<open>set\<close> installs.  An action declared \<open>=> void\<close> returns
  \<open>()\<close>.
\<close>

definition updateBlockContent ::
  "int \<Rightarrow> BlockId \<Rightarrow> RichText list \<Rightarrow> EditorState \<Rightarrow> unit \<times> EditorState" where
  "updateBlockContent now blockId cont state =
     (let doc = document state in
      case blocks doc blockId of
        None \<Rightarrow> ((), state)
      | Some block \<Rightarrow>
          if hasContent (btype block)
          then ((), state\<lparr>document :=
                  doc\<lparr>blocks := (blocks doc)(blockId \<mapsto> block\<lparr>content := cont, updatedAt := now\<rparr>),
                      docUpdatedAt := now\<rparr>\<rparr>)
          else ((), state))"

text \<open>\<open>parseInt(type.replace("heading", ""))\<close> on a heading type.\<close>

fun parseLevel :: "BlockType \<Rightarrow> HeadingLevel option" where
  "parseLevel Heading1 = Some L1"
| "parseLevel Heading2 = Some L2"
| "parseLevel Heading3 = Some L3"
| "parseLevel Paragraph = None"

definition newBlockOfType :: "BlockId \<Rightarrow> int \<Rightarrow> BlockType \<Rightarrow> Block" where
  "newBlockOfType newId now t =
     (if t = Paragraph then createParagraphBlock newId now None
      else if startsWithHeading t then
        (case parseLevel t of
           Some level \<Rightarrow> createHeadingBlock newId now level None
         | None \<Rightarrow> createParagraphBlock newId now None)
      else createParagraphBlock newId now None)"

definition createBlock ::
  "BlockId \<Rightarrow> int \<Rightarrow> BlockId option \<Rightarrow> BlockType \<Rightarrow> EditorState \<Rightarrow> BlockId \<times> EditorState" where
  "createBlock newId now afterBlockId t state =
     (let newBlock = newBlockOfType newId now t;
          newBlockId = bid newBlock;
          doc = document state;
          newRootBlockIds =
            (case afterBlockId of
               None \<Rightarrow> rootBlockIds doc @ [newBlockId]
             | Some a \<Rightarrow>
                 (let index = indexOf (rootBlockIds doc) a in
                  if index \<noteq> -1
                  then slice (rootBlockIds doc) 0 (index + 1) @ [newBlockId]
                         @ sliceFrom (rootBlockIds doc) (index + 1)
                  else rootBlockIds doc @ [newBlockId]))
      in (newBlockId,
          state\<lparr>document :=
            doc\<lparr>blocks := (blocks doc)(newBlockId \<mapsto> newBlock),
                rootBlockIds := newRootBlockIds,
                docUpdatedAt := now\<rparr>\<rparr>))"

definition deleteBlock :: "int \<Rightarrow> BlockId \<Rightarrow> EditorState \<Rightarrow> unit \<times> EditorState" where
  "deleteBlock now blockId state =
     (let doc = document state in
      if length (rootBlockIds doc) \<le> 1 then ((), state)
      else
        (let remainingBlocks = (blocks doc)(blockId := None);
             newRootBlockIds = filter (\<lambda>i. i \<noteq> blockId) (rootBlockIds doc)
         in ((), state\<lparr>document :=
                   doc\<lparr>blocks := remainingBlocks,
                       rootBlockIds := newRootBlockIds,
                       docUpdatedAt := now\<rparr>\<rparr>)))"

definition mergeBlockWithPrevious :: "int \<Rightarrow> BlockId \<Rightarrow> EditorState \<Rightarrow> unit \<times> EditorState" where
  "mergeBlockWithPrevious now blockId state =
     (let doc = document state;
          currentIndex = indexOf (rootBlockIds doc) blockId
      in if currentIndex \<le> 0 then ((), state)
         else
           (case lookupAt (rootBlockIds doc) (currentIndex - 1) of
              None \<Rightarrow> ((), state)
            | Some previousBlockId \<Rightarrow>
                (case blocks doc previousBlockId of
                   None \<Rightarrow> ((), state)
                 | Some previousBlock \<Rightarrow>
                     (case blocks doc blockId of
                        None \<Rightarrow> ((), state)
                      | Some currentBlock \<Rightarrow>
                          if hasContent (btype previousBlock) \<and> hasContent (btype currentBlock)
                          then
                            (let blocksWithoutCurrent = (blocks doc)(blockId := None);
                                 updatedPreviousBlock =
                                   previousBlock\<lparr>content := content previousBlock @ content currentBlock,
                                                 updatedAt := now\<rparr>;
                                 newRootBlockIds = filter (\<lambda>i. i \<noteq> blockId) (rootBlockIds doc)
                             in ((), state\<lparr>document :=
                                       doc\<lparr>blocks := blocksWithoutCurrent(previousBlockId \<mapsto> updatedPreviousBlock),
                                           rootBlockIds := newRootBlockIds,
                                           docUpdatedAt := now\<rparr>\<rparr>))
                          else ((), state)))))"

definition splitBlock ::
  "BlockId \<Rightarrow> int \<Rightarrow> BlockId \<Rightarrow> int \<Rightarrow> EditorState \<Rightarrow> BlockId \<times> EditorState" where
  "splitBlock newId now blockId offset state =
     (case blocks (document state) blockId of
        None \<Rightarrow> ([], state)
      | Some block \<Rightarrow>
          if btype block \<noteq> Paragraph \<and> \<not> startsWithHeading (btype block) then ([], state)
          else
            (let fullText = concat (map rtText (content block));
                 beforeText = slice fullText 0 offset;
                 afterText = sliceFrom fullText offset;
                 newBlock = createParagraphBlock newId now (Some afterText);
                 newBlockId = bid newBlock;
                 doc = document state;
                 currentIndex = indexOf (rootBlockIds doc) blockId
             in (newBlockId,
                 if currentIndex = -1 then state
                 else
                   (let updatedBlock =
                          block\<lparr>content := (if beforeText \<noteq> [] then [\<lparr>rtText = beforeText, marks = []\<rparr>] else []),
                                updatedAt := now\<rparr>;
                        newRootBlockIds =
                          slice (rootBlockIds doc) 0 (currentIndex + 1) @ [newBlockId]
                            @ sliceFrom (rootBlockIds doc) (currentIndex + 1)
                    in state\<lparr>document :=
                         doc\<lparr>blocks := (blocks doc)(blockId \<mapsto> updatedBlock, newBlockId \<mapsto> newBlock),
                             rootBlockIds := newRootBlockIds,
                             docUpdatedAt := now\<rparr>\<rparr>))))"

section \<open>Derived notions used in the statements\<close>

text \<open>The plain-text projection of the block stored under an identifier.\<close>

definition plainTextOf :: "EditorState \<Rightarrow> BlockId \<Rightarrow> string option" where
  "plainTextOf st i = map_option (\<lambda>b. richTextToPlainText (content b)) (blocks (document st) i)"

text \<open>\<open>splitBlock\<close> followed by \<open>mergeBlockWithPrevious\<close> on the identifier it returns.\<close>

definition splitThenMerge ::
  "BlockId \<Rightarrow> int \<Rightarrow> int \<Rightarrow> BlockId \<Rightarrow> int \<Rightarrow> EditorState \<Rightarrow> EditorState" where
  "splitThenMerge newId t1 t2 blockId offset st =
     (case splitBlock newId t1 blockId offset st of
        (sibling, st1) \<Rightarrow> snd (mergeBlockWithPrevious t2 sibling st1))"

section \<open>Example states\<close>

definition helloBlock :: Block where
  "helloBlock = \<lparr>bid = ''b1'', btype = Paragraph,
     content = [\<lparr>rtText = ''hello world'', marks = []\<rparr>],
     children = [], createdAt = 0, updatedAt = 0\<rparr>"

definition helloState :: EditorState where
  "helloState =
     \<lparr>document = \<lparr>docId = ''doc'', title = ''Untitled'', rootBlockIds = [''b1''],
                   blocks = Map.empty(''b1'' \<mapsto> helloBlock),
                   docCreatedAt = 0, docUpdatedAt = 0\<rparr>,
      selection = None, ui = \<lparr>focusedBlockId = None\<rparr>\<rparr>"

definition paragraphA :: Block where
  "paragraphA = \<lparr>bid = ''a'', btype = Paragraph,
     content = [\<lparr>rtText = ''ab'', marks = []\<rparr>],
     children = [], createdAt = 0, updatedAt = 0\<rparr>"

definition paragraphB :: Block where
  "paragraphB = \<lparr>bid = ''b'', btype = Paragraph,
     content = [\<lparr>rtText = ''cd'', marks = []\<rparr>],
     children = [], createdAt = 0, updatedAt = 0\<rparr>"

text \<open>A document whose only root block is \<open>a\<close>.\<close>

definition soloState :: EditorState where
  "soloState =
     \<lparr>document = \<lparr>docId = ''doc'', title = ''Untitled'', rootBlockIds = [''a''],
                   blocks = Map.empty(''a'' \<mapsto> paragraphA),
                   docCreatedAt = 0, docUpdatedAt = 0\<rparr>,
      selection = None, ui = \<lparr>focusedBlockId = None\<rparr>\<rparr>"

text \<open>A document with the two root blocks \<open>a\<close> and \<open>b\<close>.\<close>

definition duoState :: EditorState where
  "duoState =
     \<lparr>document = \<lparr>docId = ''doc'', title = ''Untitled'', rootBlockIds = [''a'', ''b''],
                   blocks = Map.empty(''a'' \<mapsto> paragraphA, ''b'' \<mapsto> paragraphB),
                   docCreatedAt = 0, docUpdatedAt = 0\<rparr>,
      selection = None, ui = \<lparr>focusedBlockId = None\<rparr>\<rparr>"

text \<open>The run sequence of the block stored under an identifier.\<close>

definition contentOf :: "EditorState \<Rightarrow> BlockId \<Rightarrow> RichText list option" where
  "contentOf st i = map_option content (blocks (document st) i)"

text \<open>At most one run, and no run carries a mark.\<close>

definition unmarkedAtMostOne :: "RichText list \<Rightarrow> bool" where
  "unmarkedAtMostOne rs = (length rs \<le> 1 \<and> (\<forall>r \<in> set rs. marks r = []))"

text \<open>
  The split of a run sequence as the specification words it (section 4.1, \<open>splitAt\<close>):
  two run sequences whose concatenated plain text is the original, split exactly at the
  offset, the run that contains the offset being cut in two; every run keeps its marks.
  The store has no such function; this one is only compared with what \<open>splitBlock\<close>
  leaves in the original block.
\<close>

fun splitAt_spec :: "RichText list \<Rightarrow> nat \<Rightarrow> RichText list \<times> RichText list" where
  "splitAt_spec [] n = ([], [])"
| "splitAt_spec (r # rs) n =
     (if n = 0 then ([], r # rs)
      else if length (rtText r) \<le> n then
        (case splitAt_spec rs (n - length (rtText r)) of (before, after) \<Rightarrow> (r # before, after))
      else ([r\<lparr>rtText := take n (rtText r)\<rparr>], r\<lparr>rtText := drop n (rtText r)\<rparr> # rs))"

text \<open>
  An identifier is attached when it stands in the root order or in the child list of a
  block of the store.
\<close>

definition attached :: "Document \<Rightarrow> BlockId \<Rightarrow> bool" where
  "attached d c = (c \<in> set (rootBlockIds d) \<or> (\<exists>p blk. blocks d p = Some blk \<and> c \<in> set (children blk)))"

definition boldMark :: Mark where
  "boldMark = \<lparr>markType = Bold, attrs = None\<rparr>"

text \<open>A heading whose first run is bold.\<close>

definition boldBlock :: Block where
  "boldBlock = \<lparr>bid = ''a'', btype = Heading1,
     content = [\<lparr>rtText = ''ab'', marks = [boldMark]\<rparr>, \<lparr>rtText = ''cd'', marks = []\<rparr>],
     children = [], createdAt = 0, updatedAt = 0\<rparr>"

definition boldState :: EditorState where
  "boldState =
     \<lparr>document = \<lparr>docId = ''doc'', title = ''Untitled'', rootBlockIds = [''a''],
                   blocks = Map.empty(''a'' \<mapsto> boldBlock),
                   docCreatedAt = 0, docUpdatedAt = 0\<rparr>,
      selection = None, ui = \<lparr>focusedBlockId = None\<rparr>\<rparr>"

text \<open>A root block \<open>b\<close> that lists the child \<open>c\<close>, after the root block \<open>a\<close>.\<close>

definition parentB :: Block where
  "parentB = \<lparr>bid = ''b'', btype = Paragraph,
     content = [\<lparr>rtText = ''cd'', marks = []\<rparr>],
     children = [''c''], createdAt = 0, updatedAt = 0\<rparr>"

definition childC :: Block where
  "childC = \<lparr>bid = ''c'', btype = Paragraph, content = [],
     children = [], createdAt = 0, updatedAt = 0\<rparr>"

definition familyState :: EditorState where
  "familyState =
     \<lparr>document = \<lparr>docId = ''doc'', title = ''Untitled'', rootBlockIds = [''a'', ''b''],
                   blocks = Map.empty(''a'' \<mapsto> paragraphA, ''b'' \<mapsto> parentB, ''c'' \<mapsto> childC),
                   docCreatedAt = 0, docUpdatedAt = 0\<rparr>,
      selection = None, ui = \<lparr>focusedBlockId = None\<rparr>\<rparr>"

section \<open>Run normalisation (specification, section 3)\<close>

text \<open>
  The invariant of a run sequence in the specification's words: no two adjacent runs have
  identical format-sets, and no run has empty text (the empty sequence has no run at all).
  The store has no function that establishes it; these predicates only state it.
\<close>

fun noAdjacentEqualMarks :: "RichText list \<Rightarrow> bool" where
  "noAdjacentEqualMarks (r1 # r2 # rs) =
     (set (marks r1) \<noteq> set (marks r2) \<and> noAdjacentEqualMarks (r2 # rs))"
| "noAdjacentEqualMarks rs = True"

definition noEmptyRun :: "RichText list \<Rightarrow> bool" where
  "noEmptyRun rs = (\<forall>r \<in> set rs. rtText r \<noteq> [])"

definition normalizedRuns :: "RichText list \<Rightarrow> bool" where
  "normalizedRuns rs = (noAdjacentEqualMarks rs \<and> noEmptyRun rs)"

text \<open>Every block of the store has a normalised run sequence.\<close>

definition normalizedDoc :: "EditorState \<Rightarrow> bool" where
  "normalizedDoc st = (\<forall>i b. blocks (document st) i = Some b \<longrightarrow> normalizedRuns (content b))"

text \<open>The weaker half: no block of the store has a run with empty text.\<close>

definition noEmptyRunDoc :: "EditorState \<Rightarrow> bool" where
  "noEmptyRunDoc st = (\<forall>i b. blocks (document st) i = Some b \<longrightarrow> noEmptyRun (content b))"

section \<open>Documents up to timestamps\<close>

text \<open>
  A document with every timestamp (its own and those of its blocks) set to zero: two
  documents with the same image differ at most in what \<open>Date.now()\<close> wrote.
\<close>

definition eraseBlockTimes :: "Block \<Rightarrow> Block" where
  "eraseBlockTimes b = b\<lparr>createdAt := 0, updatedAt := 0\<rparr>"

definition eraseTimes :: "Document \<Rightarrow> Document" where
  "eraseTimes d =
     d\<lparr>blocks := (\<lambda>i. map_option eraseBlockTimes (blocks d i)),
       docCreatedAt := 0, docUpdatedAt := 0\<rparr>"

section \<open>The documents the store can reach\<close>

text \<open>
  \<open>createEmptyDocument()\<close>: a document with one empty paragraph (the copy of
  utils/blockUtils.ts next to the Immer store), and the earlier copy that fills the
  document with four sample blocks.  The identifiers come from \<open>createId()\<close>.
\<close>

definition createEmptyDocument :: "string \<Rightarrow> BlockId \<Rightarrow> int \<Rightarrow> Document" where
  "createEmptyDocument newDocId newId now =
     (let initialBlock = createParagraphBlock newId now None
      in \<lparr>docId = newDocId, title = ''Untitled'', rootBlockIds = [bid initialBlock],
          blocks = Map.empty(bid initialBlock \<mapsto> initialBlock),
          docCreatedAt = now, docUpdatedAt = now\<rparr>)"

definition createEmptyDocument_sample ::
  "string \<Rightarrow> BlockId \<Rightarrow> BlockId \<Rightarrow> BlockId \<Rightarrow> BlockId \<Rightarrow> int \<Rightarrow> Document" where
  "createEmptyDocument_sample newDocId i1 i2 i3 i4 now =
     (let block1 = createParagraphBlock i1 now
            (Some ''This is a test paragraph to verify Milestone 4 rendering works correctly.'');
          block2 = createHeadingBlock i2 now L1 (Some ''Heading 1 Test'');
          block3 = createHeadingBlock i3 now L2 (Some ''Heading 2 Test'');
          block4 = createParagraphBlock i4 now (Some ''Another paragraph block.'')
      in \<lparr>docId = newDocId, title = ''Untitled'',
          rootBlockIds = [bid block1, bid block2, bid block3, bid block4],
          blocks = Map.empty(bid block1 \<mapsto> block1, bid block2 \<mapsto> block2,
                             bid block3 \<mapsto> block3, bid block4 \<mapsto> block4),
          docCreatedAt = now, docUpdatedAt = now\<rparr>)"

text \<open>The initial state of the store: \<open>{ document, selection: null, ui: { focusedBlockId: null } }\<close>.\<close>

definition initialState :: "Document \<Rightarrow> EditorState" where
  "initialState d = \<lparr>document = d, selection = None, ui = \<lparr>focusedBlockId = None\<rparr>\<rparr>"

text \<open>
  The states of the store: an initial state, and whatever the five actions make of a state
  of the store, with any arguments, any clock reading and any generated identifier.
\<close>

inductive reachable :: "EditorState \<Rightarrow> bool" where
  reach_init: "reachable (initialState (createEmptyDocument newDocId newId now))"
| reach_sample: "reachable (initialState (createEmptyDocument_sample newDocId i1 i2 i3 i4 now))"
| reach_update: "reachable st \<Longrightarrow> reachable (snd (updateBlockContent now blockId cont st))"
| reach_create: "reachable st \<Longrightarrow> reachable (snd (createBlock newId now afterBlockId t st))"
| reach_delete: "reachable st \<Longrightarrow> reachable (snd (deleteBlock now blockId st))"
| reach_merge: "reachable st \<Longrightarrow> reachable (snd (mergeBlockWithPrevious now blockId st))"
| reach_split: "reachable st \<Longrightarrow> reachable (snd (splitBlock newId now blockId offset st))"

text \<open>
  Every block of the store has an empty child list (types/block.ts: the array of child
  identifiers is empty in Phase 1).
\<close>

definition flatDoc :: "EditorState \<Rightarrow> bool" where
  "flatDoc st = (\<forall>i b. blocks (document st) i = Some b \<longrightarrow> children b = [])"

section \<open>The store written with Immer (the second copy of store/editorStore.ts)\<close>

text \<open>
  The repository holds the store twice: with spread-operator updates (modelled above) and
  with the Immer middleware, where the recipe mutates a draft statement by statement.  Each
  statement of a recipe is one update below, in the order of the source.

  \<open>xs.splice(start, deleteCount, ...items)\<close> removes \<open>deleteCount\<close> elements at
  \<open>start\<close> and puts \<open>items\<close> in their place.
\<close>

definition splice :: "'a list \<Rightarrow> int \<Rightarrow> nat \<Rightarrow> 'a list \<Rightarrow> 'a list" where
  "splice xs start deleteCount items =
     (let s = relIndex (int (length xs)) start
      in take s xs @ items @ drop (s + deleteCount) xs)"

definition updateBlockContent_immer ::
  "int \<Rightarrow> BlockId \<Rightarrow> RichText list \<Rightarrow> EditorState \<Rightarrow> unit \<times> EditorState" where
  "updateBlockContent_immer now blockId cont draft =
     (let doc = document draft in
      case blocks doc blockId of
        None \<Rightarrow> ((), draft)
      | Some block \<Rightarrow>
          if hasContent (btype block)
          then
            (let doc1 = doc\<lparr>blocks := (blocks doc)(blockId \<mapsto> block\<lparr>content := cont, updatedAt := now\<rparr>)\<rparr>
             in ((), draft\<lparr>document := doc1\<lparr>docUpdatedAt := now\<rparr>\<rparr>))
          else ((), draft))"

definition createBlock_immer ::
  "BlockId \<Rightarrow> int \<Rightarrow> BlockId option \<Rightarrow> BlockType \<Rightarrow> EditorState \<Rightarrow> BlockId \<times> EditorState" where
  "createBlock_immer newId now afterBlockId t draft =
     (let newBlock = newBlockOfType newId now t;
          newBlockId = bid newBlock;
          doc = document draft;
          doc1 = doc\<lparr>blocks := (blocks doc)(newBlockId \<mapsto> newBlock)\<rparr>;
          doc2 =
            (case afterBlockId of
               None \<Rightarrow> doc1\<lparr>rootBlockIds := rootBlockIds doc1 @ [newBlockId]\<rparr>
             | Some a \<Rightarrow>
                 (let index = indexOf (rootBlockIds doc1) a in
                  if index \<noteq> -1
                  then doc1\<lparr>rootBlockIds := splice (rootBlockIds doc1) (index + 1) 0 [newBlockId]\<rparr>
                  else doc1\<lparr>rootBlockIds := rootBlockIds doc1 @ [newBlockId]\<rparr>))
      in (newBlockId, draft\<lparr>document := doc2\<lparr>docUpdatedAt := now\<rparr>\<rparr>))"

definition deleteBlock_immer :: "int \<Rightarrow> BlockId \<Rightarrow> EditorState \<Rightarrow> unit \<times> EditorState" where
  "deleteBlock_immer now blockId draft =
     (let doc = document draft in
      if length (rootBlockIds doc) \<le> 1 then ((), draft)
      else
        (let doc1 = doc\<lparr>blocks := (blocks doc)(blockId := None)\<rparr>;
             index = indexOf (rootBlockIds doc1) blockId;
             doc2 = (if index \<noteq> -1
                     then doc1\<lparr>rootBlockIds := splice (rootBlockIds doc1) index 1 []\<rparr>
                     else doc1)
         in ((), draft\<lparr>document := doc2\<lparr>docUpdatedAt := now\<rparr>\<rparr>)))"

definition mergeBlockWithPrevious_immer ::
  "int \<Rightarrow> BlockId \<Rightarrow> EditorState \<Rightarrow> unit \<times> EditorState" where
  "mergeBlockWithPrevious_immer now blockId draft =
     (let doc = document draft;
          currentIndex = indexOf (rootBlockIds doc) blockId
      in if currentIndex \<le> 0 then ((), draft)
         else
           (case lookupAt (rootBlockIds doc) (currentIndex - 1) of
              None \<Rightarrow> ((), draft)
            | Some previousBlockId \<Rightarrow>
                (case blocks doc previousBlockId of
                   None \<Rightarrow> ((), draft)
                 | Some previousBlock \<Rightarrow>
                     (case blocks doc blockId of
                        None \<Rightarrow> ((), draft)
                      | Some currentBlock \<Rightarrow>
                          if hasContent (btype previousBlock) \<and> hasContent (btype currentBlock)
                          then
                            (let doc1 = doc\<lparr>blocks := (blocks doc)
                                   (previousBlockId \<mapsto>
                                      previousBlock\<lparr>content := content previousBlock @ content currentBlock,
                                                    updatedAt := now\<rparr>)\<rparr>;
                                 doc2 = doc1\<lparr>blocks := (blocks doc1)(blockId := None)\<rparr>;
                                 doc3 = doc2\<lparr>rootBlockIds := splice (rootBlockIds doc2) currentIndex 1 []\<rparr>
                             in ((), draft\<lparr>document := doc3\<lparr>docUpdatedAt := now\<rparr>\<rparr>))
                          else ((), draft)))))"

definition splitBlock_immer ::
  "BlockId \<Rightarrow> int \<Rightarrow> BlockId \<Rightarrow> int \<Rightarrow> EditorState \<Rightarrow> BlockId \<times> EditorState" where
  "splitBlock_immer newId now blockId offset state =
     (case blocks (document state) blockId of
        None \<Rightarrow> ([], state)
      | Some block \<Rightarrow>
          if btype block \<noteq> Paragraph \<and> \<not> startsWithHeading (btype block) then ([], state)
          else
            (let fullText = concat (map rtText (content block));
                 beforeText = slice fullText 0 offset;
                 afterText = sliceFrom fullText offset;
                 newBlock = createParagraphBlock newId now (Some afterText);
                 newBlockId = bid newBlock;
                 doc = document state;
                 currentIndex = indexOf (rootBlockIds doc) blockId
             in (newBlockId,
                 if currentIndex = -1 then state
                 else
                   (case blocks doc blockId of
                      None \<Rightarrow> state
                    | Some currentBlock \<Rightarrow>
                        (let doc1 =
                               (if hasContent (btype currentBlock)
                                then doc\<lparr>blocks := (blocks doc)
                                       (blockId \<mapsto>
                                          currentBlock\<lparr>content := (if beforeText \<noteq> []
                                                                     then [\<lparr>rtText = beforeText, marks = []\<rparr>]
                                                                     else []),
                                                       updatedAt := now\<rparr>)\<rparr>
                                else doc);
                             doc2 = doc1\<lparr>blocks := (blocks doc1)(newBlockId \<mapsto> newBlock)\<rparr>;
                             doc3 = doc2\<lparr>rootBlockIds :=
                                      splice (rootBlockIds doc2) (currentIndex + 1) 0 [newBlockId]\<rparr>
                         in state\<lparr>document := doc3\<lparr>docUpdatedAt := now\<rparr>\<rparr>)))))"

section \<open>The history slice (store/history.ts in the project specification, Phase 7)\<close>

text \<open>\<open>HistoryEntry = { document; timestamp; operationType }\<close>\<close>

record HistoryEntry =
  entryDocument :: Document
  timestamp :: int
  operationType :: string

record HistoryState =
  entries :: "HistoryEntry list"
  currentIndex :: int
  maxEntries :: nat

text \<open>\<open>pendingBatch: { timeoutId; blockId; operationType } | null\<close>\<close>

record PendingBatch =
  timeoutId :: nat
  batchBlockId :: string
  batchOperationType :: string

text \<open>The slice lives in the same store as the editor state.\<close>

record HistoryStore = EditorState +
  history :: HistoryState
  pendingBatch :: "PendingBatch option"

text \<open>
  The JavaScript runtime around the store: a logical clock (\<open>Date.now()\<close>), the timeouts
  that are scheduled and not yet cleared or run, each with its due time, and the next
  timeout identifier.  Every callback the slice schedules is \<open>() => get().commitBatch()\<close>,
  so a timeout needs no closure.
\<close>

record Runtime =
  store :: HistoryStore
  timers :: "(nat \<times> int) list"
  nextTimeoutId :: nat
  clock :: int

definition BATCH_TIMEOUT :: int where
  "BATCH_TIMEOUT = 500"

definition setTimeout :: "int \<Rightarrow> Runtime \<Rightarrow> nat \<times> Runtime" where
  "setTimeout delay rt =
     (nextTimeoutId rt,
      rt\<lparr>timers := timers rt @ [(nextTimeoutId rt, clock rt + delay)],
         nextTimeoutId := Suc (nextTimeoutId rt)\<rparr>)"

definition clearTimeout :: "nat \<Rightarrow> Runtime \<Rightarrow> Runtime" where
  "clearTimeout i rt = rt\<lparr>timers := filter (\<lambda>t. fst t \<noteq> i) (timers rt)\<rparr>"

text \<open>The initial slice: no entry, pointer \<open>-1\<close>, at most 100 entries, no pending batch.\<close>

definition createHistorySlice :: "EditorState \<Rightarrow> HistoryStore" where
  "createHistorySlice st =
     \<lparr>document = document st, selection = selection st, ui = ui st,
      history = \<lparr>entries = [], currentIndex = -1, maxEntries = 100\<rparr>,
      pendingBatch = None\<rparr>"

definition initialRuntime :: "EditorState \<Rightarrow> int \<Rightarrow> Runtime" where
  "initialRuntime st t0 =
     \<lparr>store = createHistorySlice st, timers = [], nextTimeoutId = 1, clock = t0\<rparr>"

text \<open>\<open>structuredClone\<close> of a value is the value.\<close>

definition commitBatch :: "Runtime \<Rightarrow> Runtime" where
  "commitBatch rt =
     (case pendingBatch (store rt) of
        None \<Rightarrow> rt
      | Some pb \<Rightarrow>
          (let h = history (store rt);
               rt1 = clearTimeout (timeoutId pb) rt;
               newEntry = \<lparr>entryDocument = document (store rt), timestamp = clock rt,
                           operationType = batchOperationType pb\<rparr>;
               es = slice (entries h) 0 (currentIndex h + 1) @ [newEntry]
           in rt1\<lparr>store := (store rt1)
                \<lparr>history := h\<lparr>entries := es, currentIndex := int (length es) - 1\<rparr>,
                 pendingBatch := None\<rparr>\<rparr>))"

text \<open>\<open>options?: { batch?: boolean; blockId?: string }\<close>\<close>

record PushOptions =
  batch :: "bool option"
  optBlockId :: "string option"

text \<open>
  \<open>options?.batch && options?.blockId\<close>: the block identifier when the test is truthy
  (\<open>batch\<close> is \<open>true\<close> and \<open>blockId\<close> is a non-empty string).
\<close>

definition batchKey :: "PushOptions option \<Rightarrow> string option" where
  "batchKey options =
     (case options of
        None \<Rightarrow> None
      | Some opts \<Rightarrow>
          if batch opts = Some True
          then (case optBlockId opts of
                  None \<Rightarrow> None
                | Some b \<Rightarrow> if b \<noteq> [] then Some b else None)
          else None)"

text \<open>The tail of the batching branch: schedule the commit and record the new batch.\<close>

definition startBatch :: "string \<Rightarrow> string \<Rightarrow> Runtime \<Rightarrow> Runtime" where
  "startBatch opType b rt =
     (case setTimeout BATCH_TIMEOUT rt of
        (tid, rt1) \<Rightarrow>
          rt1\<lparr>store := (store rt1)
            \<lparr>pendingBatch := Some \<lparr>timeoutId = tid, batchBlockId = b, batchOperationType = opType\<rparr>\<rparr>\<rparr>)"

text \<open>
  \<open>history\<close>, \<open>pendingBatch\<close> and \<open>document\<close> are read once, on entry; the entry pushed
  by the last branch is built from these values, also after \<open>commitBatch\<close> has run.
\<close>

definition pushHistory :: "string \<Rightarrow> PushOptions option \<Rightarrow> Runtime \<Rightarrow> Runtime" where
  "pushHistory opType options rt =
     (let h = history (store rt);
          pending = pendingBatch (store rt);
          doc = document (store rt)
      in case batchKey options of
           Some b \<Rightarrow>
             (case pending of
                Some pb \<Rightarrow>
                  if batchBlockId pb = b \<and> batchOperationType pb = opType
                  then (case setTimeout BATCH_TIMEOUT (clearTimeout (timeoutId pb) rt) of
                          (tid, rt1) \<Rightarrow>
                            rt1\<lparr>store := (store rt1)\<lparr>pendingBatch := Some (pb\<lparr>timeoutId := tid\<rparr>)\<rparr>\<rparr>)
                  else startBatch opType b (commitBatch rt)
              | None \<Rightarrow> startBatch opType b rt)
         | None \<Rightarrow>
             (let rt1 = (case pending of Some pb \<Rightarrow> commitBatch rt | None \<Rightarrow> rt);
                  newEntry = \<lparr>entryDocument = doc, timestamp = clock rt, operationType = opType\<rparr>;
                  pushed = slice (entries h) 0 (currentIndex h + 1) @ [newEntry];
                  es = (if maxEntries h < length pushed then tl pushed else pushed)
              in rt1\<lparr>store := (store rt1)
                   \<lparr>history := h\<lparr>entries := es, currentIndex := int (length es) - 1\<rparr>\<rparr>\<rparr>))"

text \<open>Reading \<open>entry.document\<close> of a missing entry throws.\<close>

datatype jsError = TypeError

definition undo :: "Runtime \<Rightarrow> jsError + Runtime" where
  "undo rt =
     (let h = history (store rt);
          rt1 = (case pendingBatch (store rt) of Some pb \<Rightarrow> commitBatch rt | None \<Rightarrow> rt)
      in if currentIndex h \<le> 0 then Inr rt1
         else
           (let newIndex = currentIndex h - 1 in
            case lookupAt (entries h) newIndex of
              None \<Rightarrow> Inl TypeError
            | Some entry \<Rightarrow>
                Inr (rt1\<lparr>store := (store rt1)
                       \<lparr>document := entryDocument entry,
                        history := h\<lparr>currentIndex := newIndex\<rparr>\<rparr>\<rparr>)))"

definition redo :: "Runtime \<Rightarrow> jsError + Runtime" where
  "redo rt =
     (let h = history (store rt) in
      if int (length (entries h)) - 1 \<le> currentIndex h then Inr rt
      else
        (let newIndex = currentIndex h + 1 in
         case lookupAt (entries h) newIndex of
           None \<Rightarrow> Inl TypeError
         | Some entry \<Rightarrow>
             Inr (rt\<lparr>store := (store rt)
                    \<lparr>document := entryDocument entry,
                     history := h\<lparr>currentIndex := newIndex\<rparr>\<rparr>\<rparr>)))"

definition canUndo :: "Runtime \<Rightarrow> bool" where
  "canUndo rt = (0 < currentIndex (history (store rt)))"

definition canRedo :: "Runtime \<Rightarrow> bool" where
  "canRedo rt = (currentIndex (history (store rt)) < int (length (entries (history (store rt)))) - 1)"

section \<open>Time and edits around the history slice\<close>

text \<open>
  Time passes: the timeouts that fall due run in the order they were scheduled (the delay
  is constant, so this is the order of their due times), each at its due time.
\<close>

fun fireDue :: "int \<Rightarrow> (nat \<times> int) list \<Rightarrow> Runtime \<Rightarrow> Runtime" where
  "fireDue t [] rt = rt"
| "fireDue t (tm # tms) rt =
     fireDue t tms
       (if snd tm \<le> t \<and> tm \<in> set (timers rt)
        then commitBatch (rt\<lparr>timers := filter (\<lambda>x. fst x \<noteq> fst tm) (timers rt),
                            clock := max (clock rt) (snd tm)\<rparr>)
        else rt)"

definition advance :: "int \<Rightarrow> Runtime \<Rightarrow> Runtime" where
  "advance dt rt = (fireDue (clock rt + dt) (timers rt) rt)\<lparr>clock := clock rt + dt\<rparr>"

text \<open>An edit replaces the live document.\<close>

definition setDocument :: "Document \<Rightarrow> Runtime \<Rightarrow> Runtime" where
  "setDocument d rt = rt\<lparr>store := (store rt)\<lparr>document := d\<rparr>\<rparr>"

text \<open>A text-edit history commit for a block: \<open>pushHistory("typing", { batch: true, blockId })\<close>.\<close>

definition typingCommit :: "BlockId \<Rightarrow> Runtime \<Rightarrow> Runtime" where
  "typingCommit b rt = pushHistory ''typing'' (Some \<lparr>batch = Some True, optBlockId = Some b\<rparr>) rt"

text \<open>
  The batching scenario: three text-edit commits on \<open>b1\<close>, a commit on \<open>b2\<close>, then the
  wait.  \<open>a1\<close>, \<open>a2\<close>, \<open>a3\<close> are the documents after the three edits of \<open>b1\<close>,
  \<open>a4\<close> the document when the commit for \<open>b2\<close> is made and \<open>a5\<close> the document
  after it; \<open>g1\<close>, \<open>g2\<close>, \<open>g3\<close> are the pauses between the commits and \<open>w\<close> the
  final wait.
\<close>

definition batchingScenario ::
  "BlockId \<Rightarrow> BlockId \<Rightarrow> Document \<Rightarrow> Document \<Rightarrow> Document \<Rightarrow> Document \<Rightarrow> Document
     \<Rightarrow> int \<Rightarrow> int \<Rightarrow> int \<Rightarrow> int \<Rightarrow> Runtime \<Rightarrow> Runtime" where
  "batchingScenario b1 b2 a1 a2 a3 a4 a5 g1 g2 g3 w rt =
     advance w (setDocument a5 (typingCommit b2 (setDocument a4 (advance g3
       (typingCommit b1 (setDocument a3 (advance g2
         (typingCommit b1 (setDocument a2 (advance g1
           (typingCommit b1 (setDocument a1 rt))))))))))))"

text \<open>The document after \<open>updateBlockContent\<close> writes the plain text \<open>s\<close> into a block.\<close>

definition textEdit :: "int \<Rightarrow> BlockId \<Rightarrow> string \<Rightarrow> Document \<Rightarrow> Document" where
  "textEdit now b s d =
     document (snd (updateBlockContent now b (plainTextToRichText s)
       \<lparr>document = d, selection = None, ui = \<lparr>focusedBlockId = None\<rparr>\<rparr>))"

text \<open>The plain-text projection of a block of a document.\<close>

definition docText :: "Document \<Rightarrow> BlockId \<Rightarrow> string option" where
  "docText d i = map_option (\<lambda>b. richTextToPlainText (content b)) (blocks d i)"

text \<open>
  A concrete run on \<open>duoState\<close>: the block \<open>a\<close> is typed into three times (\<open>x\<close>,
  \<open>xy\<close>, \<open>xyz\<close>), then the block \<open>b\<close> once (\<open>q\<close>), each edit followed by its
  history commit, 100 time units apart; then 500 time units pass.
\<close>

definition typed1 :: Document where
  "typed1 = textEdit 0 ''a'' ''x'' (document duoState)"

definition typed2 :: Document where
  "typed2 = textEdit 100 ''a'' ''xy'' typed1"

definition typed3 :: Document where
  "typed3 = textEdit 200 ''a'' ''xyz'' typed2"

definition typed4 :: Document where
  "typed4 = textEdit 300 ''b'' ''q'' typed3"

definition exampleRun :: Runtime where
  "exampleRun =
     batchingScenario ''a'' ''b'' typed1 typed2 typed3 typed4 typed4 100 100 100 500
       (initialRuntime duoState 0)"

section \<open>Facts about the helpers\<close>

lemma indexOf_ge: "- 1 \<le> indexOf xs x"
  by (induction xs) (auto simp: Let_def)

lemma indexOf_notin: "(indexOf xs x = - 1) = (x \<notin> set xs)"
proof (induction xs)
  case Nil
  show ?case by simp
next
  case (Cons y ys)
  have "- 1 \<le> indexOf ys x" by (rule indexOf_ge)
  with Cons show ?case by (auto simp: Let_def)
qed

lemma indexOf_in:
  "x \<in> set xs \<Longrightarrow> 0 \<le> indexOf xs x \<and> indexOf xs x < int (length xs) \<and> xs ! nat (indexOf xs x) = x"
proof (induction xs)
  case Nil
  then show ?case by simp
next
  case (Cons y ys)
  show ?case
  proof (cases "y = x")
    case True
    then show ?thesis by simp
  next
    case False
    with Cons.prems have mem: "x \<in> set ys" by simp
    from Cons.IH [OF mem] have ih: "0 \<le> indexOf ys x" "indexOf ys x < int (length ys)"
      "ys ! nat (indexOf ys x) = x" by simp_all
    from ih False show ?thesis by (simp add: Let_def nat_add_distrib)
  qed
qed

lemma indexOf_first: "0 \<le> j \<Longrightarrow> j < indexOf xs x \<Longrightarrow> xs ! nat j \<noteq> x"
proof (induction xs arbitrary: j)
  case Nil
  then show ?case by simp
next
  case (Cons y ys)
  show ?case
  proof (cases "y = x")
    case True
    with Cons.prems show ?thesis by simp
  next
    case False
    show ?thesis
    proof (cases "j = 0")
      case True
      with False show ?thesis by simp
    next
      case jpos: False
      from Cons.prems False have lt: "j - 1 < indexOf ys x"
        by (auto simp: Let_def split: if_splits)
      from jpos Cons.prems have "0 \<le> j - 1" by simp
      from Cons.IH [OF this lt] have "ys ! nat (j - 1) \<noteq> x" .
      moreover from jpos Cons.prems have "nat j = Suc (nat (j - 1))" by simp
      ultimately show ?thesis by simp
    qed
  qed
qed

lemma indexOf_insert_fresh:
  "n \<notin> set xs \<Longrightarrow> k \<le> length xs \<Longrightarrow> indexOf (take k xs @ n # drop k xs) n = int k"
proof (induction xs arbitrary: k)
  case Nil
  then show ?case by simp
next
  case (Cons y ys)
  show ?case
  proof (cases k)
    case 0
    then show ?thesis by simp
  next
    case (Suc m)
    with Cons.prems have "indexOf (take m ys @ n # drop m ys) n = int m"
      by (intro Cons.IH) auto
    with Suc Cons.prems show ?thesis by (auto simp: Let_def)
  qed
qed

lemma filter_insert_fresh:
  "n \<notin> set xs \<Longrightarrow> filter (\<lambda>i. i \<noteq> n) (take k xs @ n # drop k xs) = xs"
proof -
  assume fresh: "n \<notin> set xs"
  have "\<And>ys. n \<notin> set ys \<Longrightarrow> filter (\<lambda>i. i \<noteq> n) ys = ys"
    by (rule filter_True) auto
  moreover from fresh have "n \<notin> set (take k xs)" "n \<notin> set (drop k xs)"
    by (auto dest: in_set_takeD in_set_dropD)
  ultimately show ?thesis by simp
qed

lemma slice_zero: "0 \<le> k \<Longrightarrow> slice xs 0 k = take (nat k) xs"
  by (auto simp: slice_def relIndex_def Let_def min_def)

lemma sliceFrom_nonneg: "0 \<le> k \<Longrightarrow> sliceFrom xs k = drop (nat k) xs"
  by (auto simp: sliceFrom_def relIndex_def min_def)

lemma slice_sliceFrom: "slice xs 0 k @ sliceFrom xs k = xs"
  by (simp add: slice_def sliceFrom_def Let_def relIndex_def)

section \<open>What a split and a merge that apply compute\<close>

text \<open>
  Every block type has content: the store's type test never fails on the four types of
  \<open>Block["type"]\<close>.
\<close>

lemma hasContent_all: "hasContent t"
  by (cases t) (simp_all add: hasContent_def)

lemma splitBlock_applied:
  assumes blk: "blocks (document st) B = Some blk"
      and mem: "B \<in> set (rootBlockIds (document st))"
  shows "splitBlock newId now B k st =
     (newId,
      st\<lparr>document := (document st)
        \<lparr>blocks := (blocks (document st))
           (B \<mapsto> blk\<lparr>content := plainTextToRichText (slice (richTextToPlainText (content blk)) 0 k),
                     updatedAt := now\<rparr>,
            newId \<mapsto> createParagraphBlock newId now (Some (sliceFrom (richTextToPlainText (content blk)) k))),
         rootBlockIds :=
           take (Suc (nat (indexOf (rootBlockIds (document st)) B))) (rootBlockIds (document st))
             @ newId # drop (Suc (nat (indexOf (rootBlockIds (document st)) B))) (rootBlockIds (document st)),
         docUpdatedAt := now\<rparr>\<rparr>)"
proof -
  from indexOf_in [OF mem] have ix: "0 \<le> indexOf (rootBlockIds (document st)) B" by simp
  then have ne: "indexOf (rootBlockIds (document st)) B \<noteq> - 1" by simp
  have kind: "startsWithHeading (btype blk) = (btype blk \<noteq> Paragraph)"
    by (cases "btype blk") simp_all
  from ix have suc: "nat (indexOf (rootBlockIds (document st)) B + 1) = Suc (nat (indexOf (rootBlockIds (document st)) B))"
    by simp
  from ix have nn: "0 \<le> indexOf (rootBlockIds (document st)) B + 1" by simp
  show ?thesis
    using blk ne kind
    by (simp add: splitBlock_def Let_def createParagraphBlock_def plainTextToRichText_def
        richTextToPlainText_def slice_zero [OF nn] sliceFrom_nonneg [OF nn] suc)
qed


lemma mergeBlockWithPrevious_applied:
  assumes pos: "0 < indexOf (rootBlockIds (document st)) blockId"
      and prev: "lookupAt (rootBlockIds (document st)) (indexOf (rootBlockIds (document st)) blockId - 1) = Some p"
      and pb: "blocks (document st) p = Some pblk"
      and cb: "blocks (document st) blockId = Some cblk"
  shows "mergeBlockWithPrevious now blockId st =
     ((), st\<lparr>document := (document st)
        \<lparr>blocks := ((blocks (document st))(blockId := None))
             (p \<mapsto> pblk\<lparr>content := content pblk @ content cblk, updatedAt := now\<rparr>),
         rootBlockIds := filter (\<lambda>i. i \<noteq> blockId) (rootBlockIds (document st)),
         docUpdatedAt := now\<rparr>\<rparr>)"
  using pos prev pb cb
  by (simp add: mergeBlockWithPrevious_def Let_def hasContent_all)


lemma richTextToPlainText_plain [simp]: "richTextToPlainText (plainTextToRichText s) = s"
  by (simp add: richTextToPlainText_def plainTextToRichText_def)

lemma richTextToPlainText_append [simp]:
  "richTextToPlainText (xs @ ys) = richTextToPlainText xs @ richTextToPlainText ys"
  by (simp add: richTextToPlainText_def)

text \<open>The cases in which a delete, a merge or a split returns the state as it is.\<close>

lemma deleteBlock_last_noop:
  "length (rootBlockIds (document st)) \<le> 1 \<Longrightarrow> deleteBlock now blockId st = ((), st)"
  by (simp add: deleteBlock_def)

lemma mergeBlockWithPrevious_first_noop:
  "indexOf (rootBlockIds (document st)) blockId \<le> 0 \<Longrightarrow> mergeBlockWithPrevious now blockId st = ((), st)"
  by (simp add: mergeBlockWithPrevious_def Let_def)

lemma splitBlock_unresolved_noop:
  "blocks (document st) blockId = None \<Longrightarrow> splitBlock newId now blockId k st = ([], st)"
  by (simp add: splitBlock_def)

lemma splitBlock_unlisted_noop:
  "blockId \<notin> set (rootBlockIds (document st)) \<Longrightarrow> snd (splitBlock newId now blockId k st) = st"
  by (simp add: splitBlock_def Let_def indexOf_notin split: option.splits)

section \<open>C1: split followed by merge restores the text\<close>

text \<open>
  Claim C1.  Let \<open>B\<close> be a block of the store that stands in the root order and let
  \<open>newId\<close> be a fresh identifier (one that does not occur in the root order).  Splitting
  \<open>B\<close> at any offset and then merging the block that \<open>splitBlock\<close> returned with its
  predecessor gives a state whose root order is the original one, so \<open>B\<close> stands at its
  original position, in which \<open>B\<close> has the plain text it had before, and from which the
  new sibling is gone.  Timestamps are not compared.  The offset need not even lie in
  \<open>[0, len(T)]\<close>: \<open>slice\<close> clamps it.
\<close>

theorem split_merge_roundtrip:
  assumes blk: "blocks (document st) B = Some blk"
      and mem: "B \<in> set (rootBlockIds (document st))"
      and fresh: "newId \<notin> set (rootBlockIds (document st))"
  shows "rootBlockIds (document (splitThenMerge newId t1 t2 B k st)) = rootBlockIds (document st)
       \<and> plainTextOf (splitThenMerge newId t1 t2 B k st) B = plainTextOf st B
       \<and> blocks (document (splitThenMerge newId t1 t2 B k st)) newId = None"
proof -
  let ?root = "rootBlockIds (document st)"
  let ?i = "nat (indexOf ?root B)"
  let ?T = "richTextToPlainText (content blk)"
  define st1 where "st1 = snd (splitBlock newId t1 B k st)"
  let ?b1 = "blk\<lparr>content := plainTextToRichText (slice ?T 0 k), updatedAt := t1\<rparr>"
  let ?n1 = "createParagraphBlock newId t1 (Some (sliceFrom ?T k))"
  from indexOf_in [OF mem] have ix: "0 \<le> indexOf ?root B" "indexOf ?root B < int (length ?root)"
    "?root ! ?i = B" by simp_all
  from mem fresh have neq: "newId \<noteq> B" by auto
  have sp: "splitBlock newId t1 B k st = (newId, st1)"
    by (simp add: st1_def splitBlock_applied [OF blk mem])
  have root1: "rootBlockIds (document st1) = take (Suc ?i) ?root @ newId # drop (Suc ?i) ?root"
    by (simp add: st1_def splitBlock_applied [OF blk mem])
  have blocks1: "blocks (document st1) = (blocks (document st))(B \<mapsto> ?b1, newId \<mapsto> ?n1)"
    by (simp add: st1_def splitBlock_applied [OF blk mem])
  from ix have len: "Suc ?i \<le> length ?root" by simp
  have idx: "indexOf (rootBlockIds (document st1)) newId = int (Suc ?i)"
    unfolding root1 by (rule indexOf_insert_fresh [OF fresh len])
  have pos: "0 < indexOf (rootBlockIds (document st1)) newId"
    unfolding idx by simp
  from ix have "(take (Suc ?i) ?root @ newId # drop (Suc ?i) ?root) ! ?i = B"
    by (simp add: nth_append)
  then have prev: "lookupAt (rootBlockIds (document st1)) (indexOf (rootBlockIds (document st1)) newId - 1) = Some B"
    unfolding idx unfolding root1 using ix by (simp add: lookupAt_def)
  from neq have pb: "blocks (document st1) B = Some ?b1"
    unfolding blocks1 by simp
  have cb: "blocks (document st1) newId = Some ?n1"
    unfolding blocks1 by simp
  note m = mergeBlockWithPrevious_applied [OF pos prev pb cb, of t2]
  have res: "splitThenMerge newId t1 t2 B k st = snd (mergeBlockWithPrevious t2 newId st1)"
    by (simp add: splitThenMerge_def sp)
  have flt: "filter (\<lambda>i. i \<noteq> newId) (rootBlockIds (document st1)) = ?root"
    unfolding root1 by (rule filter_insert_fresh [OF fresh])
  have r: "rootBlockIds (document (splitThenMerge newId t1 t2 B k st)) = ?root"
    unfolding res m using flt by simp
  have t: "plainTextOf (splitThenMerge newId t1 t2 B k st) B = plainTextOf st B"
    unfolding res m using blk
    by (simp add: plainTextOf_def createParagraphBlock_def slice_sliceFrom)
  have g: "blocks (document (splitThenMerge newId t1 t2 B k st)) newId = None"
    unfolding res m using neq by simp
  from r t g show ?thesis by simp
qed



text \<open>
  The example of the claim: the paragraph \<open>hello world\<close> split at offset 5 gives
  \<open>hello\<close> and a new sibling \<open> world\<close> right after it; merging the sibling restores
  \<open>hello world\<close> at the original position.
\<close>

lemma hello_split:
  "fst (splitBlock ''b2'' 1 ''b1'' 5 helloState) = ''b2''
   \<and> rootBlockIds (document (snd (splitBlock ''b2'' 1 ''b1'' 5 helloState))) = [''b1'', ''b2'']
   \<and> plainTextOf (snd (splitBlock ''b2'' 1 ''b1'' 5 helloState)) ''b1'' = Some ''hello''
   \<and> plainTextOf (snd (splitBlock ''b2'' 1 ''b1'' 5 helloState)) ''b2'' = Some '' world''"
  by (simp add: splitBlock_def helloState_def helloBlock_def Let_def slice_def sliceFrom_def
      relIndex_def createParagraphBlock_def plainTextToRichText_def plainTextOf_def
      richTextToPlainText_def)

theorem split_merge_roundtrip_witness:
  "fst (splitBlock ''b2'' 1 ''b1'' 5 helloState) = ''b2''
   \<and> rootBlockIds (document (snd (splitBlock ''b2'' 1 ''b1'' 5 helloState))) = [''b1'', ''b2'']
   \<and> plainTextOf (snd (splitBlock ''b2'' 1 ''b1'' 5 helloState)) ''b1'' = Some ''hello''
   \<and> plainTextOf (snd (splitBlock ''b2'' 1 ''b1'' 5 helloState)) ''b2'' = Some '' world''
   \<and> rootBlockIds (document (splitThenMerge ''b2'' 1 2 ''b1'' 5 helloState)) = [''b1'']
   \<and> plainTextOf (splitThenMerge ''b2'' 1 2 ''b1'' 5 helloState) ''b1'' = Some ''hello world''
   \<and> blocks (document (splitThenMerge ''b2'' 1 2 ''b1'' 5 helloState)) ''b2'' = None"
proof -
  have after: "rootBlockIds (document (splitThenMerge ''b2'' 1 2 ''b1'' 5 helloState)) = [''b1'']
   \<and> plainTextOf (splitThenMerge ''b2'' 1 2 ''b1'' 5 helloState) ''b1'' = Some ''hello world''
   \<and> blocks (document (splitThenMerge ''b2'' 1 2 ''b1'' 5 helloState)) ''b2'' = None"
    using split_merge_roundtrip [of helloState "''b1''" helloBlock "''b2''" 1 2 5]
    by (simp add: helloState_def helloBlock_def plainTextOf_def richTextToPlainText_def)
  from hello_split after show ?thesis by simp
qed

section \<open>C2: deleting the last root block\<close>

lemma length_filter_neq:
  "distinct xs \<Longrightarrow> length xs \<le> Suc (length (filter (\<lambda>i. i \<noteq> x) xs))"
proof (induction xs)
  case Nil
  show ?case by simp
next
  case (Cons y ys)
  show ?case
  proof (cases "y = x")
    case True
    with Cons.prems have "x \<notin> set ys" by simp
    then have "filter (\<lambda>i. i \<noteq> x) ys = ys" by (intro filter_True) auto
    with True show ?thesis by simp
  next
    case False
    with Cons show ?thesis by simp
  qed
qed

text \<open>
  Claim C2, as amended.  When the root order holds at most one block, \<open>deleteBlock\<close>
  returns the state it was given, whatever identifier it is called with; and a root order
  that is non-empty and free of duplicates is still non-empty after any \<open>deleteBlock\<close>.
  The action is declared \<open>=> void\<close>: it returns \<open>()\<close> on every path and signals no
  outcome.
\<close>

theorem deleteBlock_last_block:
  "(length (rootBlockIds (document st)) \<le> 1 \<longrightarrow> deleteBlock now blockId st = ((), st))
   \<and> (rootBlockIds (document st) \<noteq> [] \<and> distinct (rootBlockIds (document st)) \<longrightarrow>
        rootBlockIds (document (snd (deleteBlock now blockId st))) \<noteq> [])"
proof (intro conjI impI)
  assume "length (rootBlockIds (document st)) \<le> 1"
  then show "deleteBlock now blockId st = ((), st)"
    by (simp add: deleteBlock_def)
next
  assume a: "rootBlockIds (document st) \<noteq> [] \<and> distinct (rootBlockIds (document st))"
  show "rootBlockIds (document (snd (deleteBlock now blockId st))) \<noteq> []"
  proof (cases "length (rootBlockIds (document st)) \<le> 1")
    case True
    with a show ?thesis by (simp add: deleteBlock_def)
  next
    case False
    from a have "length (rootBlockIds (document st))
        \<le> Suc (length (filter (\<lambda>i. i \<noteq> blockId) (rootBlockIds (document st))))"
      by (intro length_filter_neq) simp
    with False have "filter (\<lambda>i. i \<noteq> blockId) (rootBlockIds (document st)) \<noteq> []"
      by auto
    with False show ?thesis by (simp add: deleteBlock_def Let_def)
  qed
qed

theorem deleteBlock_last_block_witness:
  "deleteBlock 5 ''a'' soloState = ((), soloState)
   \<and> rootBlockIds (document (snd (deleteBlock 5 ''a'' duoState))) \<noteq> []"
  using deleteBlock_last_block [of soloState 5 "''a''"] deleteBlock_last_block [of duoState 5 "''a''"]
  by (simp add: soloState_def duoState_def)

text \<open>
  Claim C2 as stated fails: the refused call on the sole root block returns exactly the
  value that a call which deletes a block returns, so no \<open>Rejected\<close> outcome tells the
  two apart.  The state is left unchanged in the first case and loses \<open>a\<close> in the second.
\<close>

theorem deleteBlock_signals_nothing:
  "fst (deleteBlock 5 ''a'' soloState) = fst (deleteBlock 5 ''a'' duoState)
   \<and> snd (deleteBlock 5 ''a'' soloState) = soloState
   \<and> rootBlockIds (document (snd (deleteBlock 5 ''a'' duoState))) = [''b'']"
  by (simp add: deleteBlock_def soloState_def duoState_def Let_def)

section \<open>C3: inserting after an identifier that is not in the root order\<close>

lemma bid_newBlockOfType: "bid (newBlockOfType newId now t) = newId"
  by (cases t) (simp_all add: newBlockOfType_def createParagraphBlock_def createHeadingBlock_def)

text \<open>
  Claim C3, as amended.  \<open>createBlock\<close> never fails: whatever \<open>afterBlockId\<close> is, it
  returns the new identifier, stores the new block and makes the root order one longer.
  When \<open>afterBlockId\<close> is not null and does not occur in the root order, the new
  identifier is appended at the end of the root order.
\<close>

theorem createBlock_unknown_after_appends:
  "fst (createBlock newId now after t st) = newId
   \<and> blocks (document (snd (createBlock newId now after t st)))
       = (blocks (document st))(newId \<mapsto> newBlockOfType newId now t)
   \<and> length (rootBlockIds (document (snd (createBlock newId now after t st))))
       = Suc (length (rootBlockIds (document st)))
   \<and> (\<forall>a. after = Some a \<and> a \<notin> set (rootBlockIds (document st)) \<longrightarrow>
         rootBlockIds (document (snd (createBlock newId now after t st)))
           = rootBlockIds (document st) @ [newId])"
proof -
  let ?root = "rootBlockIds (document st)"
  have r: "fst (createBlock newId now after t st) = newId"
    by (simp add: createBlock_def Let_def bid_newBlockOfType)
  have b: "blocks (document (snd (createBlock newId now after t st)))
       = (blocks (document st))(newId \<mapsto> newBlockOfType newId now t)"
    by (simp add: createBlock_def Let_def bid_newBlockOfType)
  have "\<And>i. length (slice ?root 0 i @ [newId] @ sliceFrom ?root i) = Suc (length ?root)"
  proof -
    fix i
    have "length (slice ?root 0 i) + length (sliceFrom ?root i) = length (slice ?root 0 i @ sliceFrom ?root i)"
      by simp
    then show "length (slice ?root 0 i @ [newId] @ sliceFrom ?root i) = Suc (length ?root)"
      by (simp add: slice_sliceFrom)
  qed
  then have l: "length (rootBlockIds (document (snd (createBlock newId now after t st))))
       = Suc (length ?root)"
    by (simp add: createBlock_def Let_def split: option.splits)
  have u: "\<forall>a. after = Some a \<and> a \<notin> set ?root \<longrightarrow>
         rootBlockIds (document (snd (createBlock newId now after t st))) = ?root @ [newId]"
  proof (intro allI impI)
    fix a
    assume h: "after = Some a \<and> a \<notin> set ?root"
    then have "indexOf ?root a = - 1" by (simp add: indexOf_notin)
    with h show "rootBlockIds (document (snd (createBlock newId now after t st))) = ?root @ [newId]"
      by (simp add: createBlock_def Let_def bid_newBlockOfType)
  qed
  from r b l u show ?thesis by simp
qed

theorem createBlock_unknown_after_appends_witness:
  "fst (createBlock ''n'' 5 (Some ''zzz'') Heading2 soloState) = ''n''
   \<and> rootBlockIds (document (snd (createBlock ''n'' 5 (Some ''zzz'') Heading2 soloState))) = [''a'', ''n'']
   \<and> map_option btype (blocks (document (snd (createBlock ''n'' 5 (Some ''zzz'') Heading2 soloState))) ''n'')
       = Some Heading2"
  using createBlock_unknown_after_appends [of "''n''" 5 "Some ''zzz''" Heading2 soloState]
  by (simp add: soloState_def newBlockOfType_def createHeadingBlock_def)

text \<open>
  Claim C3 as stated fails: \<open>zzz\<close> resolves to no block of \<open>soloState\<close>, yet
  \<open>createBlock\<close> returns the new identifier and the new paragraph is in the store and in
  the root order.
\<close>

theorem createBlock_unknown_after_inserts:
  "blocks (document soloState) ''zzz'' = None
   \<and> fst (createBlock ''n'' 5 (Some ''zzz'') Paragraph soloState) = ''n''
   \<and> rootBlockIds (document (snd (createBlock ''n'' 5 (Some ''zzz'') Paragraph soloState))) = [''a'', ''n'']
   \<and> blocks (document (snd (createBlock ''n'' 5 (Some ''zzz'') Paragraph soloState))) ''n''
       = Some (createParagraphBlock ''n'' 5 None)"
  by (simp add: createBlock_def soloState_def Let_def newBlockOfType_def createParagraphBlock_def)

section \<open>C4: what splitBlock leaves behind\<close>

text \<open>
  Claim C4, as amended.  Let \<open>B\<close> be a block of the store that stands in the root order,
  \<open>newId\<close> a fresh identifier and \<open>k\<close> a non-negative offset.  Then \<open>splitBlock\<close>
  returns \<open>newId\<close>; \<open>B\<close> keeps its kind and holds the plain text before the offset as
  unmarked content (marks are not carried over); the block \<open>newId\<close> is a paragraph holding
  the plain text after the offset; \<open>B\<close> stays at its position in the root order and
  \<open>newId\<close> stands at the next one, the other identifiers keeping their order.
\<close>

theorem splitBlock_result:
  assumes blk: "blocks (document st) B = Some blk"
      and mem: "B \<in> set (rootBlockIds (document st))"
      and fresh: "newId \<notin> set (rootBlockIds (document st))"
      and lo: "0 \<le> k"
  shows "fst (splitBlock newId now B k st) = newId
       \<and> map_option btype (blocks (document (snd (splitBlock newId now B k st))) B) = Some (btype blk)
       \<and> contentOf (snd (splitBlock newId now B k st)) B
           = Some (plainTextToRichText (take (nat k) (richTextToPlainText (content blk))))
       \<and> map_option btype (blocks (document (snd (splitBlock newId now B k st))) newId) = Some Paragraph
       \<and> contentOf (snd (splitBlock newId now B k st)) newId
           = Some (plainTextToRichText (drop (nat k) (richTextToPlainText (content blk))))
       \<and> lookupAt (rootBlockIds (document (snd (splitBlock newId now B k st))))
            (indexOf (rootBlockIds (document st)) B) = Some B
       \<and> lookupAt (rootBlockIds (document (snd (splitBlock newId now B k st))))
            (indexOf (rootBlockIds (document st)) B + 1) = Some newId
       \<and> filter (\<lambda>i. i \<noteq> newId) (rootBlockIds (document (snd (splitBlock newId now B k st))))
           = rootBlockIds (document st)"
proof -
  let ?root = "rootBlockIds (document st)"
  let ?i = "nat (indexOf ?root B)"
  define st1 where "st1 = snd (splitBlock newId now B k st)"
  from indexOf_in [OF mem] have ix: "0 \<le> indexOf ?root B" "indexOf ?root B < int (length ?root)"
    "?root ! ?i = B" by simp_all
  from mem fresh have neq: "newId \<noteq> B" by auto
  have root1: "rootBlockIds (document st1) = take (Suc ?i) ?root @ newId # drop (Suc ?i) ?root"
    by (simp add: st1_def splitBlock_applied [OF blk mem])
  from ix have len1: "length (take (Suc ?i) ?root) = Suc ?i" by simp
  have r: "fst (splitBlock newId now B k st) = newId"
    by (simp add: splitBlock_applied [OF blk mem])
  have t1: "map_option btype (blocks (document st1) B) = Some (btype blk)"
    using neq by (simp add: st1_def splitBlock_applied [OF blk mem])
  have c1: "contentOf st1 B = Some (plainTextToRichText (take (nat k) (richTextToPlainText (content blk))))"
    using neq by (simp add: st1_def splitBlock_applied [OF blk mem] contentOf_def slice_zero [OF lo])
  have t2: "map_option btype (blocks (document st1) newId) = Some Paragraph"
    by (simp add: st1_def splitBlock_applied [OF blk mem] createParagraphBlock_def)
  have c2: "contentOf st1 newId = Some (plainTextToRichText (drop (nat k) (richTextToPlainText (content blk))))"
    by (simp add: st1_def splitBlock_applied [OF blk mem] contentOf_def createParagraphBlock_def
        sliceFrom_nonneg [OF lo])
  from ix have "(take (Suc ?i) ?root @ newId # drop (Suc ?i) ?root) ! ?i = B"
    by (simp add: nth_append)
  with ix have p1: "lookupAt (rootBlockIds (document st1)) (indexOf ?root B) = Some B"
    unfolding root1 by (simp add: lookupAt_def)
  from ix have "nat (indexOf ?root B + 1) = Suc ?i" by simp
  moreover have "(take (Suc ?i) ?root @ newId # drop (Suc ?i) ?root) ! Suc ?i = newId"
    using len1 by (metis nth_append_length)
  ultimately have p2: "lookupAt (rootBlockIds (document st1)) (indexOf ?root B + 1) = Some newId"
    unfolding root1 using ix by (simp add: lookupAt_def)
  have flt: "filter (\<lambda>i. i \<noteq> newId) (rootBlockIds (document st1)) = ?root"
    unfolding root1 by (rule filter_insert_fresh [OF fresh])
  from r t1 c1 t2 c2 p1 p2 flt show ?thesis
    unfolding st1_def by simp
qed

theorem splitBlock_result_witness:
  "fst (splitBlock ''n'' 5 ''a'' 1 boldState) = ''n''
   \<and> map_option btype (blocks (document (snd (splitBlock ''n'' 5 ''a'' 1 boldState))) ''a'') = Some Heading1
   \<and> contentOf (snd (splitBlock ''n'' 5 ''a'' 1 boldState)) ''a'' = Some [\<lparr>rtText = ''a'', marks = []\<rparr>]
   \<and> map_option btype (blocks (document (snd (splitBlock ''n'' 5 ''a'' 1 boldState))) ''n'') = Some Paragraph
   \<and> contentOf (snd (splitBlock ''n'' 5 ''a'' 1 boldState)) ''n'' = Some [\<lparr>rtText = ''bcd'', marks = []\<rparr>]
   \<and> rootBlockIds (document (snd (splitBlock ''n'' 5 ''a'' 1 boldState))) = [''a'', ''n'']"
proof -
  have root: "rootBlockIds (document (snd (splitBlock ''n'' 5 ''a'' 1 boldState))) = [''a'', ''n'']"
    by (simp add: splitBlock_def boldState_def boldBlock_def Let_def slice_def sliceFrom_def
        relIndex_def createParagraphBlock_def)
  show ?thesis
    using splitBlock_result [of boldState "''a''" boldBlock "''n''" 1 5] root
    by (simp add: boldState_def boldBlock_def richTextToPlainText_def plainTextToRichText_def)
qed

text \<open>
  Claim C4 as stated fails on a block with marks: splitting the heading \<open>boldBlock\<close> at
  offset 1 leaves the unmarked run \<open>a\<close> in the original block, while the runs before the
  offset are the bold run \<open>a\<close>.
\<close>

theorem splitBlock_drops_marks:
  "contentOf (snd (splitBlock ''n'' 5 ''a'' 1 boldState)) ''a'' = Some [\<lparr>rtText = ''a'', marks = []\<rparr>]
   \<and> fst (splitAt_spec (content boldBlock) 1) = [\<lparr>rtText = ''a'', marks = [boldMark]\<rparr>]
   \<and> contentOf (snd (splitBlock ''n'' 5 ''a'' 1 boldState)) ''a''
       \<noteq> Some (fst (splitAt_spec (content boldBlock) 1))"
  by (simp add: splitBlock_def boldState_def boldBlock_def Let_def slice_def sliceFrom_def
      relIndex_def createParagraphBlock_def contentOf_def boldMark_def)

section \<open>C5: merging a block into its predecessor\<close>

text \<open>
  No factory and no action writes a child list other than the empty one, so every state of
  the store is flat.
\<close>

lemma children_newBlockOfType: "children (newBlockOfType newId now t) = []"
  by (cases t) (simp_all add: newBlockOfType_def createParagraphBlock_def createHeadingBlock_def)

lemma flatDoc_updateBlockContent:
  "flatDoc st \<Longrightarrow> flatDoc (snd (updateBlockContent now blockId cont st))"
  by (auto simp: flatDoc_def updateBlockContent_def Let_def split: option.splits if_splits)

lemma flatDoc_createBlock:
  "flatDoc st \<Longrightarrow> flatDoc (snd (createBlock newId now afterBlockId t st))"
  by (auto simp: flatDoc_def createBlock_def Let_def children_newBlockOfType split: if_splits)

lemma flatDoc_deleteBlock:
  "flatDoc st \<Longrightarrow> flatDoc (snd (deleteBlock now blockId st))"
  by (auto simp: flatDoc_def deleteBlock_def Let_def split: if_splits)

lemma flatDoc_mergeBlockWithPrevious:
  "flatDoc st \<Longrightarrow> flatDoc (snd (mergeBlockWithPrevious now blockId st))"
  by (auto simp: flatDoc_def mergeBlockWithPrevious_def Let_def split: option.splits if_splits)

lemma flatDoc_splitBlock:
  "flatDoc st \<Longrightarrow> flatDoc (snd (splitBlock newId now blockId k st))"
  by (auto simp: flatDoc_def splitBlock_def Let_def createParagraphBlock_def
      split: option.splits if_splits)

lemma flatDoc_initial:
  "flatDoc (initialState (createEmptyDocument newDocId newId now))"
  "flatDoc (initialState (createEmptyDocument_sample newDocId i1 i2 i3 i4 now))"
  by (auto simp: flatDoc_def initialState_def createEmptyDocument_def createEmptyDocument_sample_def
      createParagraphBlock_def createHeadingBlock_def Let_def split: if_splits)

lemma reachable_flatDoc: "reachable st \<Longrightarrow> flatDoc st"
  by (induction rule: reachable.induct)
     (simp_all add: flatDoc_initial flatDoc_updateBlockContent flatDoc_createBlock
        flatDoc_deleteBlock flatDoc_mergeBlockWithPrevious flatDoc_splitBlock)



lemma reachable_sample_merge:
  "reachable (snd (mergeBlockWithPrevious 5 ''i2''
     (initialState (createEmptyDocument_sample ''doc'' ''i1'' ''i2'' ''i3'' ''i4'' 0))))"
  by (intro reach_merge reach_sample)


text \<open>
  Flatness is what carries the reparenting: the merge itself never reads or writes a child
  list.  In \<open>familyState\<close>, a state written down by hand that no action produces, the
  block \<open>b\<close> lists the child \<open>c\<close>, and after merging \<open>b\<close> into \<open>a\<close> no block lists
  \<open>c\<close>.
\<close>

lemma reparenting_needs_flatDoc:
  "attached (document familyState) ''c''
   \<and> \<not> attached (document (snd (mergeBlockWithPrevious 5 ''b'' familyState))) ''c''"
proof -
  have a: "attached (document familyState) ''c''"
    unfolding attached_def
    by (rule disjI2, rule exI [of _ "''b''"], rule exI [of _ parentB])
       (simp add: familyState_def parentB_def)
  have m: "document (snd (mergeBlockWithPrevious 5 ''b'' familyState)) =
      (document familyState)
        \<lparr>blocks := Map.empty(''c'' \<mapsto> childC,
             ''a'' \<mapsto> paragraphA\<lparr>content := content paragraphA @ content parentB, updatedAt := 5\<rparr>),
         rootBlockIds := [''a''], docUpdatedAt := 5\<rparr>"
    by (simp add: mergeBlockWithPrevious_def familyState_def Let_def lookupAt_def hasContent_all
        fun_upd_twist)
  have b: "\<not> attached (document (snd (mergeBlockWithPrevious 5 ''b'' familyState))) ''c''"
    unfolding m by (auto simp: attached_def childC_def paragraphA_def split: if_splits)
  from a b show ?thesis by simp
qed

section \<open>C6: run normalisation\<close>

lemma normalizedRuns_plain: "normalizedRuns (plainTextToRichText s)"
  by (simp add: normalizedRuns_def noEmptyRun_def plainTextToRichText_def)

lemma content_newBlockOfType: "content (newBlockOfType newId now t) = []"
  by (cases t) (simp_all add: newBlockOfType_def createParagraphBlock_def createHeadingBlock_def)

lemma createBlock_blocks:
  "blocks (document (snd (createBlock newId now after t st)))
     = (blocks (document st))(newId \<mapsto> newBlockOfType newId now t)"
  by (simp add: createBlock_def Let_def bid_newBlockOfType)

lemma createBlock_normalized:
  assumes "normalizedDoc st"
  shows "normalizedDoc (snd (createBlock newId now after t st))"
  using assms unfolding normalizedDoc_def createBlock_blocks
  by (auto simp: content_newBlockOfType normalizedRuns_def noEmptyRun_def split: if_splits)

lemma updateBlockContent_normalized:
  assumes "normalizedDoc st" and "normalizedRuns cont"
  shows "normalizedDoc (snd (updateBlockContent now B cont st))"
proof (cases "blocks (document st) B")
  case None
  with assms show ?thesis by (simp add: updateBlockContent_def)
next
  case (Some blk)
  with assms show ?thesis
    by (auto simp: updateBlockContent_def Let_def normalizedDoc_def hasContent_all split: if_splits)
qed

lemma splitBlock_normalized:
  assumes "normalizedDoc st"
  shows "normalizedDoc (snd (splitBlock newId now B k st))"
proof (cases "blocks (document st) B")
  case None
  with assms show ?thesis by (simp add: splitBlock_def)
next
  case (Some blk)
  show ?thesis
  proof (cases "B \<in> set (rootBlockIds (document st))")
    case False
    with assms show ?thesis by (simp add: splitBlock_unlisted_noop)
  next
    case True
    from assms show ?thesis
      unfolding splitBlock_applied [OF Some True] normalizedDoc_def
      by (auto simp: normalizedRuns_plain createParagraphBlock_def split: if_splits)
  qed
qed

lemma mergeBlockWithPrevious_noEmptyRun:
  assumes "noEmptyRunDoc st"
  shows "noEmptyRunDoc (snd (mergeBlockWithPrevious now B st))"
  using assms
  by (auto simp: mergeBlockWithPrevious_def Let_def noEmptyRunDoc_def noEmptyRun_def
      split: option.splits if_splits)

text \<open>
  Claim C6, as amended.  \<open>createBlock\<close> and \<open>splitBlock\<close> keep every block of the store
  normalised (the contents they write are empty or one unmarked run with text);
  \<open>updateBlockContent\<close> keeps it when the run sequence it is given is normalised, since it
  stores that sequence as it is; \<open>mergeBlockWithPrevious\<close> keeps the half of the invariant
  that says no run has empty text.  The merge concatenates two run sequences without
  joining the runs that meet, so the other half is not promised.
\<close>

theorem normalisation_preserved:
  "(normalizedDoc st \<longrightarrow> normalizedDoc (snd (createBlock newId now after t st)))
   \<and> (normalizedDoc st \<longrightarrow> normalizedDoc (snd (splitBlock newId now B k st)))
   \<and> (normalizedDoc st \<and> normalizedRuns cont \<longrightarrow> normalizedDoc (snd (updateBlockContent now B cont st)))
   \<and> (noEmptyRunDoc st \<longrightarrow> noEmptyRunDoc (snd (mergeBlockWithPrevious now B st)))"
  using createBlock_normalized splitBlock_normalized updateBlockContent_normalized
    mergeBlockWithPrevious_noEmptyRun
  by blast

lemma normalizedDoc_duoState: "normalizedDoc duoState"
  by (auto simp: normalizedDoc_def duoState_def paragraphA_def paragraphB_def normalizedRuns_def
      noEmptyRun_def split: if_splits)

lemma noEmptyRunDoc_duoState: "noEmptyRunDoc duoState"
  by (auto simp: noEmptyRunDoc_def duoState_def paragraphA_def paragraphB_def
      noEmptyRun_def split: if_splits)

theorem normalisation_preserved_witness:
  "normalizedDoc (snd (createBlock ''n'' 5 (Some ''a'') Heading1 duoState))
   \<and> normalizedDoc (snd (splitBlock ''n'' 5 ''a'' 1 duoState))
   \<and> normalizedDoc (snd (updateBlockContent 5 ''a'' [\<lparr>rtText = ''x'', marks = [boldMark]\<rparr>] duoState))
   \<and> noEmptyRunDoc (snd (mergeBlockWithPrevious 5 ''b'' duoState))"
  using normalisation_preserved [of duoState "''n''" 5 "Some ''a''" Heading1 "''a''" 1
      "[\<lparr>rtText = ''x'', marks = [boldMark]\<rparr>]"]
    normalisation_preserved [of duoState "''n''" 5 "Some ''a''" Heading1 "''b''" 1
      "[\<lparr>rtText = ''x'', marks = [boldMark]\<rparr>]"]
    normalizedDoc_duoState noEmptyRunDoc_duoState
  by (simp add: normalizedRuns_def noEmptyRun_def)

lemma normalizedDoc_helloState: "normalizedDoc helloState"
  by (auto simp: normalizedDoc_def helloState_def helloBlock_def normalizedRuns_def
      noEmptyRun_def split: if_splits)

text \<open>
  Claim C6 as stated fails on a reachable document: \<open>helloState\<close> is normalised, and so
  is the state after splitting \<open>hello world\<close> at offset 5, but merging the new sibling back
  leaves the two adjacent runs \<open>hello\<close> and \<open> world\<close> with the same (empty) format-set.
\<close>

theorem merge_breaks_normalisation:
  "normalizedDoc helloState
   \<and> normalizedDoc (snd (splitBlock ''b2'' 1 ''b1'' 5 helloState))
   \<and> contentOf (splitThenMerge ''b2'' 1 2 ''b1'' 5 helloState) ''b1''
       = Some [\<lparr>rtText = ''hello'', marks = []\<rparr>, \<lparr>rtText = '' world'', marks = []\<rparr>]
   \<and> \<not> normalizedDoc (splitThenMerge ''b2'' 1 2 ''b1'' 5 helloState)"
proof -
  have c: "contentOf (splitThenMerge ''b2'' 1 2 ''b1'' 5 helloState) ''b1''
       = Some [\<lparr>rtText = ''hello'', marks = []\<rparr>, \<lparr>rtText = '' world'', marks = []\<rparr>]"
    by (simp add: splitThenMerge_def splitBlock_def mergeBlockWithPrevious_def helloState_def
        helloBlock_def Let_def slice_def sliceFrom_def relIndex_def createParagraphBlock_def
        plainTextToRichText_def contentOf_def lookupAt_def hasContent_def)
  have "\<not> normalizedDoc (splitThenMerge ''b2'' 1 2 ''b1'' 5 helloState)"
  proof
    assume n: "normalizedDoc (splitThenMerge ''b2'' 1 2 ''b1'' 5 helloState)"
    from c obtain b where b: "blocks (document (splitThenMerge ''b2'' 1 2 ''b1'' 5 helloState)) ''b1'' = Some b"
      and cb: "content b = [\<lparr>rtText = ''hello'', marks = []\<rparr>, \<lparr>rtText = '' world'', marks = []\<rparr>]"
      by (auto simp: contentOf_def)
    from n b have "normalizedRuns (content b)" by (simp add: normalizedDoc_def)
    with cb show False by (simp add: normalizedRuns_def)
  qed
  with c normalizedDoc_helloState splitBlock_normalized [OF normalizedDoc_helloState]
  show ?thesis by simp
qed

section \<open>C7: operations that do not apply\<close>

text \<open>
  With two or more root blocks, \<open>deleteBlock\<close> of an identifier that is neither in the
  store nor in the root order keeps the blocks and the root order and still writes the
  clock into the document's \<open>updatedAt\<close>.
\<close>

lemma deleteBlock_unresolved:
  assumes "blocks (document st) blockId = None"
      and "blockId \<notin> set (rootBlockIds (document st))"
      and "1 < length (rootBlockIds (document st))"
  shows "snd (deleteBlock now blockId st) = st\<lparr>document := (document st)\<lparr>docUpdatedAt := now\<rparr>\<rparr>"
proof -
  from assms(1) have "(blocks (document st))(blockId := None) = blocks (document st)"
    by (intro ext) simp
  moreover from assms(2) have "filter (\<lambda>i. i \<noteq> blockId) (rootBlockIds (document st)) = rootBlockIds (document st)"
    by (intro filter_True) auto
  ultimately show ?thesis using assms(3)
    by (simp add: deleteBlock_def Let_def)
qed

text \<open>
  Claim C7 at a concrete input: \<open>zzz\<close> does not resolve in \<open>duoState\<close>, and
  \<open>deleteBlock\<close> at clock 5 changes the document's \<open>updatedAt\<close> from 0 to 5, so the
  state does not stay as it was.
\<close>

theorem deleteBlock_unresolved_touches_updatedAt:
  "blocks (document duoState) ''zzz'' = None
   \<and> docUpdatedAt (document duoState) = 0
   \<and> docUpdatedAt (document (snd (deleteBlock 5 ''zzz'' duoState))) = 5
   \<and> snd (deleteBlock 5 ''zzz'' duoState) \<noteq> duoState"
proof -
  have "docUpdatedAt (document (snd (deleteBlock 5 ''zzz'' duoState))) = 5"
    by (simp add: deleteBlock_def duoState_def Let_def)
  moreover have "docUpdatedAt (document duoState) = 0"
    by (simp add: duoState_def)
  moreover have "blocks (document duoState) ''zzz'' = None"
    by (simp add: duoState_def)
  ultimately show ?thesis by auto
qed

text \<open>
  The other refusals the claim lists do leave the state untouched: see
  \<open>deleteBlock_last_noop\<close>, \<open>mergeBlockWithPrevious_first_noop\<close> and
  \<open>splitBlock_unresolved_noop\<close>.
\<close>

section \<open>C8: two runs of one operation\<close>

lemma eraseTimes_eqI:
  assumes "docId d = docId e" "title d = title e" "rootBlockIds d = rootBlockIds e"
      and "\<And>i. map_option eraseBlockTimes (blocks d i) = map_option eraseBlockTimes (blocks e i)"
  shows "eraseTimes d = eraseTimes e"
  using assms by (cases d, cases e) (simp add: eraseTimes_def fun_eq_iff)

lemma updateBlockContent_clock:
  "eraseTimes (document (snd (updateBlockContent n1 B cont st)))
     = eraseTimes (document (snd (updateBlockContent n2 B cont st)))"
  by (rule eraseTimes_eqI)
     (auto simp: updateBlockContent_def Let_def eraseBlockTimes_def split: option.splits)

lemma createBlock_clock:
  "eraseTimes (document (snd (createBlock newId n1 after t st)))
     = eraseTimes (document (snd (createBlock newId n2 after t st)))"
proof -
  have "eraseBlockTimes (newBlockOfType newId n1 t) = eraseBlockTimes (newBlockOfType newId n2 t)"
    by (cases t)
       (simp_all add: newBlockOfType_def createParagraphBlock_def createHeadingBlock_def
          eraseBlockTimes_def)
  then show ?thesis
    by (intro eraseTimes_eqI)
       (auto simp: createBlock_def Let_def bid_newBlockOfType split: option.splits)
qed

lemma deleteBlock_clock:
  "eraseTimes (document (snd (deleteBlock n1 B st)))
     = eraseTimes (document (snd (deleteBlock n2 B st)))"
  by (rule eraseTimes_eqI) (auto simp: deleteBlock_def Let_def)

lemma mergeBlockWithPrevious_clock:
  "eraseTimes (document (snd (mergeBlockWithPrevious n1 B st)))
     = eraseTimes (document (snd (mergeBlockWithPrevious n2 B st)))"
  by (rule eraseTimes_eqI)
     (auto simp: mergeBlockWithPrevious_def Let_def eraseBlockTimes_def split: option.splits)

lemma splitBlock_clock:
  "eraseTimes (document (snd (splitBlock newId n1 B k st)))
     = eraseTimes (document (snd (splitBlock newId n2 B k st)))"
  by (rule eraseTimes_eqI)
     (auto simp: splitBlock_def Let_def eraseBlockTimes_def createParagraphBlock_def
        split: option.splits)

lemma returned_ids_clock:
  "fst (createBlock newId n1 after t st) = fst (createBlock newId n2 after t st)"
  "fst (splitBlock newId n1 B k st) = fst (splitBlock newId n2 B k st)"
  by (simp_all add: createBlock_def splitBlock_def Let_def bid_newBlockOfType
      createParagraphBlock_def split: option.splits)

text \<open>
  Claim C8, as amended.  Run any of the five actions twice on the same state with the same
  arguments and the same generated identifier, at two clock readings \<open>n1\<close> and \<open>n2\<close>:
  the two output documents agree once their timestamps are erased, and the returned
  identifiers are equal.  The documents themselves differ in what \<open>Date.now()\<close> wrote.
\<close>

theorem same_output_up_to_timestamps:
  "eraseTimes (document (snd (updateBlockContent n1 B cont st)))
     = eraseTimes (document (snd (updateBlockContent n2 B cont st)))
   \<and> eraseTimes (document (snd (createBlock newId n1 after t st)))
     = eraseTimes (document (snd (createBlock newId n2 after t st)))
   \<and> fst (createBlock newId n1 after t st) = fst (createBlock newId n2 after t st)
   \<and> eraseTimes (document (snd (deleteBlock n1 B st)))
     = eraseTimes (document (snd (deleteBlock n2 B st)))
   \<and> eraseTimes (document (snd (mergeBlockWithPrevious n1 B st)))
     = eraseTimes (document (snd (mergeBlockWithPrevious n2 B st)))
   \<and> eraseTimes (document (snd (splitBlock newId n1 B k st)))
     = eraseTimes (document (snd (splitBlock newId n2 B k st)))
   \<and> fst (splitBlock newId n1 B k st) = fst (splitBlock newId n2 B k st)"
  by (intro conjI updateBlockContent_clock createBlock_clock deleteBlock_clock
      mergeBlockWithPrevious_clock splitBlock_clock returned_ids_clock)

theorem same_output_up_to_timestamps_witness:
  "eraseTimes (document (snd (updateBlockContent 1 ''a'' [] duoState)))
     = eraseTimes (document (snd (updateBlockContent 2 ''a'' [] duoState)))
   \<and> eraseTimes (document (snd (splitBlock ''n'' 1 ''a'' 1 duoState)))
     = eraseTimes (document (snd (splitBlock ''n'' 2 ''a'' 1 duoState)))"
  using same_output_up_to_timestamps [of 1 "''a''" "[]" duoState 2 "''n''" "Some ''a''" Paragraph 1]
  by simp

text \<open>
  Claim C8 as stated fails: the same \<open>updateBlockContent\<close> on the same document at clock
  readings 1 and 2 gives two different documents (their \<open>updatedAt\<close> differ), although no
  identifier is generated.
\<close>

theorem clock_changes_output:
  "document (snd (updateBlockContent 1 ''a'' [] soloState))
     \<noteq> document (snd (updateBlockContent 2 ''a'' [] soloState))"
proof
  assume "document (snd (updateBlockContent 1 ''a'' [] soloState))
     = document (snd (updateBlockContent 2 ''a'' [] soloState))"
  then have "docUpdatedAt (document (snd (updateBlockContent 1 ''a'' [] soloState)))
     = docUpdatedAt (document (snd (updateBlockContent 2 ''a'' [] soloState)))"
    by simp
  then show False
    by (simp add: updateBlockContent_def soloState_def Let_def hasContent_all)
qed

section \<open>C9: batching and undo\<close>

lemmas scenario_defs =
  batchingScenario_def typingCommit_def pushHistory_def batchKey_def startBatch_def
  setTimeout_def clearTimeout_def commitBatch_def advance_def setDocument_def BATCH_TIMEOUT_def
  Let_def slice_def relIndex_def

text \<open>
  The scenario, started in a store with no pending batch, no scheduled timeout and the
  pointer at the latest entry: with pauses shorter than the quiet interval and a final wait
  of at least the quiet interval, it appends exactly two entries.  The first is the
  snapshot taken when the commit for \<open>b2\<close> flushed the batch of \<open>b1\<close>, the second the
  snapshot taken when the timeout ran.
\<close>

lemma scenario_entries:
  assumes idle: "pendingBatch (store rt) = None" "timers rt = []"
      and ptr: "currentIndex (history (store rt)) = int (length (entries (history (store rt)))) - 1"
      and keys: "b1 \<noteq> []" "b2 \<noteq> []" "b1 \<noteq> b2"
      and gaps: "0 \<le> g1" "g1 < 500" "0 \<le> g2" "g2 < 500" "0 \<le> g3" "g3 < 500" "500 \<le> w"
  shows "entries (history (store (batchingScenario b1 b2 a1 a2 a3 a4 a5 g1 g2 g3 w rt)))
           = entries (history (store rt))
             @ [\<lparr>entryDocument = a4, timestamp = clock rt + g1 + g2 + g3, operationType = ''typing''\<rparr>,
                \<lparr>entryDocument = a5, timestamp = clock rt + g1 + g2 + g3 + 500, operationType = ''typing''\<rparr>]"
  using assms by (simp add: scenario_defs)

lemma scenario_pointer:
  assumes idle: "pendingBatch (store rt) = None" "timers rt = []"
      and ptr: "currentIndex (history (store rt)) = int (length (entries (history (store rt)))) - 1"
      and keys: "b1 \<noteq> []" "b2 \<noteq> []" "b1 \<noteq> b2"
      and gaps: "0 \<le> g1" "g1 < 500" "0 \<le> g2" "g2 < 500" "0 \<le> g3" "g3 < 500" "500 \<le> w"
  shows "currentIndex (history (store (batchingScenario b1 b2 a1 a2 a3 a4 a5 g1 g2 g3 w rt)))
           = int (length (entries (history (store rt)))) + 1"
  using assms by (simp add: scenario_defs)

lemma scenario_idle:
  assumes idle: "pendingBatch (store rt) = None" "timers rt = []"
      and ptr: "currentIndex (history (store rt)) = int (length (entries (history (store rt)))) - 1"
      and keys: "b1 \<noteq> []" "b2 \<noteq> []" "b1 \<noteq> b2"
      and gaps: "0 \<le> g1" "g1 < 500" "0 \<le> g2" "g2 < 500" "0 \<le> g3" "g3 < 500" "500 \<le> w"
  shows "pendingBatch (store (batchingScenario b1 b2 a1 a2 a3 a4 a5 g1 g2 g3 w rt)) = None"
    and "timers (batchingScenario b1 b2 a1 a2 a3 a4 a5 g1 g2 g3 w rt) = []"
    and "document (store (batchingScenario b1 b2 a1 a2 a3 a4 a5 g1 g2 g3 w rt)) = a5"
  using assms by (simp_all add: scenario_defs)

lemma undo_steps_back:
  assumes "pendingBatch (store rt) = None"
      and "entries (history (store rt)) = es @ [e1, e2]"
      and "currentIndex (history (store rt)) = int (length es) + 1"
  shows "undo rt = Inr (rt\<lparr>store := (store rt)
           \<lparr>document := entryDocument e1,
            history := (history (store rt))\<lparr>currentIndex := int (length es)\<rparr>\<rparr>\<rparr>)"
  using assms by (simp add: undo_def Let_def lookupAt_def nth_append)

text \<open>
  Claim C9, as amended.  Three text-edit commits on \<open>b1\<close> less than 500 time units apart,
  a commit on another block \<open>b2\<close> less than 500 time units later and a wait of at least
  500 time units add exactly two history entries and leave no batch pending.  The first
  entry holds the document as it was at the commit for \<open>b2\<close> (\<open>a4\<close>: the three edits of
  \<open>b1\<close> are in it), the second the document at the deadline (\<open>a5\<close>).  A single
  \<open>undo\<close> then succeeds, moves the pointer back by one and makes \<open>a4\<close> the live
  document.
\<close>

theorem batching_then_undo:
  assumes idle: "pendingBatch (store rt) = None" "timers rt = []"
      and ptr: "currentIndex (history (store rt)) = int (length (entries (history (store rt)))) - 1"
      and keys: "b1 \<noteq> []" "b2 \<noteq> []" "b1 \<noteq> b2"
      and gaps: "0 \<le> g1" "g1 < 500" "0 \<le> g2" "g2 < 500" "0 \<le> g3" "g3 < 500" "500 \<le> w"
  shows "length (entries (history (store (batchingScenario b1 b2 a1 a2 a3 a4 a5 g1 g2 g3 w rt))))
           = length (entries (history (store rt))) + 2
       \<and> map entryDocument (entries (history (store (batchingScenario b1 b2 a1 a2 a3 a4 a5 g1 g2 g3 w rt))))
           = map entryDocument (entries (history (store rt))) @ [a4, a5]
       \<and> pendingBatch (store (batchingScenario b1 b2 a1 a2 a3 a4 a5 g1 g2 g3 w rt)) = None
       \<and> (case undo (batchingScenario b1 b2 a1 a2 a3 a4 a5 g1 g2 g3 w rt) of
             Inl e \<Rightarrow> False
           | Inr rt' \<Rightarrow> document (store rt') = a4
               \<and> currentIndex (history (store rt')) = int (length (entries (history (store rt)))))"
proof -
  let ?r = "batchingScenario b1 b2 a1 a2 a3 a4 a5 g1 g2 g3 w rt"
  note e = scenario_entries [OF assms, of a1 a2 a3 a4 a5]
  note p = scenario_pointer [OF assms, of a1 a2 a3 a4 a5]
  note i = scenario_idle(1) [OF assms, of a1 a2 a3 a4 a5]
  note u = undo_steps_back [OF i e p]
  have l: "length (entries (history (store ?r))) = length (entries (history (store rt))) + 2"
    unfolding e by simp
  have m: "map entryDocument (entries (history (store ?r)))
      = map entryDocument (entries (history (store rt))) @ [a4, a5]"
    unfolding e by simp
  have un: "(case undo ?r of
             Inl e \<Rightarrow> False
           | Inr rt' \<Rightarrow> document (store rt') = a4
               \<and> currentIndex (history (store rt')) = int (length (entries (history (store rt)))))"
    unfolding u by simp
  from l m i un show ?thesis by simp
qed


theorem batching_then_undo_witness:
  "length (entries (history (store exampleRun))) = 2
   \<and> map entryDocument (entries (history (store exampleRun))) = [typed4, typed4]
   \<and> pendingBatch (store exampleRun) = None
   \<and> (case undo exampleRun of
         Inl e \<Rightarrow> False
       | Inr rt' \<Rightarrow> document (store rt') = typed4 \<and> currentIndex (history (store rt')) = 0)"
proof -
  let ?rt0 = "initialRuntime duoState 0"
  have idle: "pendingBatch (store ?rt0) = None" "timers ?rt0 = []"
    and ptr: "currentIndex (history (store ?rt0)) = int (length (entries (history (store ?rt0)))) - 1"
    and nil: "entries (history (store ?rt0)) = []"
    by (simp_all add: initialRuntime_def createHistorySlice_def)
  have keys: "''a'' \<noteq> []" "''b'' \<noteq> []" "''a'' \<noteq> ''b''" by simp_all
  have gaps: "(0::int) \<le> 100" "(100::int) < 500" "(500::int) \<le> 500" by simp_all
  from batching_then_undo [OF idle ptr keys gaps(1,2) gaps(1,2) gaps(1,2) gaps(3),
      of typed1 typed2 typed3 typed4 typed4]
  show ?thesis
    unfolding exampleRun_def nil by (simp cong: sum.case_cong)
qed

text \<open>
  Claim C9 as stated fails in its last part: in \<open>exampleRun\<close> the block \<open>a\<close> read
  \<open>ab\<close> before the first edit; after the two entries are committed a single \<open>undo\<close>
  leaves \<open>xyz\<close> in \<open>a\<close> (and \<open>q\<close> in \<open>b\<close>), not the text before the first edit.
\<close>

lemma docText_typed4: "docText typed4 ''a'' = Some ''xyz''" "docText typed4 ''b'' = Some ''q''"
  by (simp_all add: typed4_def typed3_def typed2_def typed1_def textEdit_def updateBlockContent_def
      duoState_def paragraphA_def paragraphB_def Let_def hasContent_def docText_def
      plainTextToRichText_def richTextToPlainText_def)

theorem undo_keeps_typed_text:
  "length (entries (history (store exampleRun))) = 2
   \<and> docText (document duoState) ''a'' = Some ''ab''
   \<and> (case undo exampleRun of
         Inl e \<Rightarrow> False
       | Inr rt' \<Rightarrow> docText (document (store rt')) ''a'' = Some ''xyz''
           \<and> docText (document (store rt')) ''b'' = Some ''q'')"
proof -
  let ?rt0 = "initialRuntime duoState 0"
  have idle: "pendingBatch (store ?rt0) = None" "timers ?rt0 = []"
    and ptr: "currentIndex (history (store ?rt0)) = int (length (entries (history (store ?rt0)))) - 1"
    and nil: "entries (history (store ?rt0)) = []"
    by (simp_all add: initialRuntime_def createHistorySlice_def)
  have keys: "''a'' \<noteq> []" "''b'' \<noteq> []" "''a'' \<noteq> ''b''" by simp_all
  have gaps: "(0::int) \<le> 100" "(100::int) < 500" "(500::int) \<le> 500" by simp_all
  note e = scenario_entries [OF idle ptr keys gaps(1,2) gaps(1,2) gaps(1,2) gaps(3),
      of typed1 typed2 typed3 typed4 typed4, folded exampleRun_def, unfolded nil]
  note p = scenario_pointer [OF idle ptr keys gaps(1,2) gaps(1,2) gaps(1,2) gaps(3),
      of typed1 typed2 typed3 typed4 typed4, folded exampleRun_def, unfolded nil]
  note i = scenario_idle(1) [OF idle ptr keys gaps(1,2) gaps(1,2) gaps(1,2) gaps(3),
      of typed1 typed2 typed3 typed4 typed4, folded exampleRun_def]
  have l: "length (entries (history (store exampleRun))) = 2"
    unfolding e by simp
  have d: "docText (document duoState) ''a'' = Some ''ab''"
    by (simp add: docText_def duoState_def paragraphA_def richTextToPlainText_def)
  from e have e': "entries (history (store exampleRun)) = [] @
      [\<lparr>entryDocument = typed4, timestamp = clock ?rt0 + 100 + 100 + 100, operationType = ''typing''\<rparr>,
       \<lparr>entryDocument = typed4, timestamp = clock ?rt0 + 100 + 100 + 100 + 500, operationType = ''typing''\<rparr>]"
    by simp
  from p have p': "currentIndex (history (store exampleRun)) = int (length ([]::HistoryEntry list)) + 1"
    by simp
  note u = undo_steps_back [OF i e' p']
  have un: "(case undo exampleRun of
         Inl e \<Rightarrow> False
       | Inr rt' \<Rightarrow> docText (document (store rt')) ''a'' = Some ''xyz''
           \<and> docText (document (store rt')) ''b'' = Some ''q'')"
    unfolding u by (simp add: docText_typed4)
  from l d un show ?thesis by simp
qed

section \<open>C10: splitting flattens the rich text\<close>

lemma unmarkedAtMostOne_plain: "unmarkedAtMostOne (plainTextToRichText s)"
  by (simp add: unmarkedAtMostOne_def plainTextToRichText_def)

text \<open>
  Claim C10.  When \<open>splitBlock\<close> applies to a block \<open>B\<close> (it is in the store and in the
  root order; the new identifier differs from \<open>B\<close>), the original block is left with the
  plain text before the offset and the new block with the plain text after it, each as at
  most one run, and no run carries a mark: whatever marks the runs of \<open>B\<close> had are gone,
  also in the part that stays in \<open>B\<close>.
\<close>

theorem splitBlock_flattens:
  assumes blk: "blocks (document st) B = Some blk"
      and mem: "B \<in> set (rootBlockIds (document st))"
      and neq: "newId \<noteq> B"
  shows "contentOf (snd (splitBlock newId now B k st)) B
           = Some (plainTextToRichText (slice (richTextToPlainText (content blk)) 0 k))
       \<and> contentOf (snd (splitBlock newId now B k st)) newId
           = Some (plainTextToRichText (sliceFrom (richTextToPlainText (content blk)) k))
       \<and> unmarkedAtMostOne (plainTextToRichText (slice (richTextToPlainText (content blk)) 0 k))
       \<and> unmarkedAtMostOne (plainTextToRichText (sliceFrom (richTextToPlainText (content blk)) k))"
  using neq
  by (simp add: splitBlock_applied [OF blk mem] contentOf_def createParagraphBlock_def
      unmarkedAtMostOne_plain)

theorem splitBlock_flattens_witness:
  "contentOf (snd (splitBlock ''n'' 5 ''a'' 1 boldState)) ''a'' = Some [\<lparr>rtText = ''a'', marks = []\<rparr>]
   \<and> contentOf (snd (splitBlock ''n'' 5 ''a'' 1 boldState)) ''n'' = Some [\<lparr>rtText = ''bcd'', marks = []\<rparr>]
   \<and> unmarkedAtMostOne [\<lparr>rtText = ''a'', marks = []\<rparr>]
   \<and> unmarkedAtMostOne [\<lparr>rtText = ''bcd'', marks = []\<rparr>]"
  using splitBlock_flattens [of boldState "''a''" boldBlock "''n''" 5 1]
  by (simp add: boldState_def boldBlock_def richTextToPlainText_def plainTextToRichText_def
      slice_def sliceFrom_def relIndex_def)

section \<open>The Immer copy of the store agrees with the spread-operator copy\<close>

text \<open>
  \<open>updateBlockContent\<close>, \<open>createBlock\<close> and \<open>splitBlock\<close> compute the same in both
  copies.  \<open>deleteBlock\<close> and \<open>mergeBlockWithPrevious\<close> remove one occurrence of the
  identifier from the root order in the Immer copy (\<open>splice\<close>) and every occurrence in the
  other (\<open>filter\<close>); they agree on a root order without duplicates.
\<close>

lemma splice_insert: "splice xs i 0 [n] = slice xs 0 i @ [n] @ sliceFrom xs i"
proof -
  have "relIndex (int (length xs)) 0 = 0" by (simp add: relIndex_def)
  then show ?thesis by (simp add: splice_def slice_def sliceFrom_def Let_def)
qed

lemma splice_remove_first:
  "distinct xs \<Longrightarrow> x \<in> set xs \<Longrightarrow> splice xs (indexOf xs x) 1 [] = filter (\<lambda>i. i \<noteq> x) xs"
proof (induction xs)
  case Nil
  then show ?case by simp
next
  case (Cons y ys)
  show ?case
  proof (cases "y = x")
    case True
    with Cons.prems have "x \<notin> set ys" by simp
    then have "filter (\<lambda>i. i \<noteq> x) ys = ys" by (intro filter_True) auto
    with True show ?thesis by (simp add: splice_def relIndex_def)
  next
    case False
    with Cons.prems have mem: "x \<in> set ys" and d: "distinct ys" by simp_all
    from indexOf_in [OF mem] have ix: "0 \<le> indexOf ys x" "indexOf ys x < int (length ys)" by simp_all
    from Cons.IH [OF d mem] ix have ih:
      "take (nat (indexOf ys x)) ys @ drop (Suc (nat (indexOf ys x))) ys = filter (\<lambda>i. i \<noteq> x) ys"
      by (simp add: splice_def relIndex_def min_def Let_def)
    from ix have "nat (indexOf ys x + 1) = Suc (nat (indexOf ys x))" by simp
    with False ix ih show ?thesis
      by (simp add: splice_def relIndex_def Let_def min_def)
  qed
qed

lemma updateBlockContent_immer_eq:
  "updateBlockContent_immer now blockId cont st = updateBlockContent now blockId cont st"
  by (simp add: updateBlockContent_immer_def updateBlockContent_def Let_def split: option.splits)

lemma createBlock_immer_eq:
  "createBlock_immer newId now after t st = createBlock newId now after t st"
  by (simp add: createBlock_immer_def createBlock_def Let_def splice_insert split: option.splits)

lemma splitBlock_immer_eq:
  "splitBlock_immer newId now blockId k st = splitBlock newId now blockId k st"
  by (simp add: splitBlock_immer_def splitBlock_def Let_def splice_insert hasContent_all
      split: option.splits)

lemma deleteBlock_immer_eq:
  assumes "distinct (rootBlockIds (document st))"
  shows "deleteBlock_immer now blockId st = deleteBlock now blockId st"
proof (cases "blockId \<in> set (rootBlockIds (document st))")
  case True
  with indexOf_in [OF True] splice_remove_first [OF assms True] show ?thesis
    by (simp add: deleteBlock_immer_def deleteBlock_def Let_def)
next
  case False
  then have "filter (\<lambda>i. i \<noteq> blockId) (rootBlockIds (document st)) = rootBlockIds (document st)"
    by (intro filter_True) auto
  with False show ?thesis
    by (simp add: deleteBlock_immer_def deleteBlock_def Let_def indexOf_notin)
qed

lemma mergeBlockWithPrevious_immer_eq:
  assumes "distinct (rootBlockIds (document st))"
  shows "mergeBlockWithPrevious_immer now blockId st = mergeBlockWithPrevious now blockId st"
proof (cases "0 < indexOf (rootBlockIds (document st)) blockId")
  case False
  then show ?thesis
    by (simp add: mergeBlockWithPrevious_immer_def mergeBlockWithPrevious_def Let_def)
next
  case True
  let ?root = "rootBlockIds (document st)"
  from True have "indexOf ?root blockId \<noteq> - 1" by simp
  then have mem: "blockId \<in> set ?root" by (simp add: indexOf_notin)
  note sp = splice_remove_first [OF assms mem]
  from True have i0: "0 \<le> indexOf ?root blockId - 1"
    and i1: "indexOf ?root blockId - 1 < indexOf ?root blockId" by simp_all
  from indexOf_first [OF i0 i1] have neq: "?root ! nat (indexOf ?root blockId - 1) \<noteq> blockId" .
  show ?thesis
  proof (cases "lookupAt ?root (indexOf ?root blockId - 1)")
    case None
    with True show ?thesis
      by (simp add: mergeBlockWithPrevious_immer_def mergeBlockWithPrevious_def Let_def)
  next
    case (Some p)
    with neq have pn: "p \<noteq> blockId" by (auto simp: lookupAt_def split: if_splits)
    then have tw: "\<And>m v. (m(p \<mapsto> v))(blockId := None) = (m(blockId := None))(p \<mapsto> v)"
      by (simp add: fun_upd_twist)
    from True Some sp show ?thesis
      by (simp add: mergeBlockWithPrevious_immer_def mergeBlockWithPrevious_def Let_def tw
          split: option.splits)
  qed
qed

text \<open>The Immer copy writes the clock on an unresolved identifier as well.\<close>

lemma deleteBlock_immer_unresolved:
  "docUpdatedAt (document (snd (deleteBlock_immer 5 ''zzz'' duoState))) = 5"
  by (simp add: deleteBlock_immer_def duoState_def Let_def)

end
